theory Spec2Isabelle
  imports Complex_Main
begin

section \<open>Documents of the store\<close>

text \<open>
  The server keeps three MongoDB collections that matter here: rides, users and wallets.
  A document is a record, a collection is the list of its documents, and a handler is a
  function from the store (and the request) to the new store and the HTTP response.
  JavaScript numbers are reals, dates milliseconds (an integer), object ids strings.  A
  value that JavaScript would report as \<open>NaN\<close> is \<open>None\<close>.  The products and sums of
  the fare computation are rounded to double precision (\<open>fl\<close> below); the trigonometric
  distance and the additions and subtractions on wallet balances are taken over the reals.
  Socket emissions and console output change no document and are left out.
\<close>

type_synonym objectId = string
type_synonym date = int
type_synonym response = "nat \<times> string"

datatype rideStatus = pending | accepted | in_progress | completed | cancelled

datatype payStatus = pay_pending | pay_completed | pay_failed

record fare =
  fare_base :: real
  fare_distance :: real
  fare_time :: real
  fare_total :: real
  fare_currency :: string

record rating =
  rating_value :: real
  rating_comment :: string
  rating_createdAt :: date

record ride =
  ride_id :: objectId
  rider :: objectId
  driver :: "objectId option"
  status :: rideStatus
  pickup_address :: string
  pickup_coordinates :: "real list"
  destination_address :: string
  destination_coordinates :: "real list"
  distance :: real
  duration :: real
  ride_fare :: fare
  payment_method :: string
  payment_status :: payStatus
  driverRating :: "rating option"
  riderRating :: "rating option"
  requestedAt :: date
  acceptedAt :: "date option"
  startedAt :: "date option"
  completedAt :: "date option"
  cancelledAt :: "date option"
  cancelledBy :: "string option"
  cancellationReason :: "string option"
  vehicleType :: string

section \<open>Fare and distance (models/Ride.js, routes/rides.js)\<close>

text \<open>
  The arithmetic of JavaScript numbers.  A double has 53 significant bits, and the result
  of \<open>*\<close> or \<open>+\<close> is the exact result rounded to the nearest double, a tie going to the
  one whose last bit is even.  \<open>binade x\<close> is the exponent \<open>e\<close> with
  \<open>2^e \<le> |x| < 2^(e+1)\<close>, \<open>ulp x\<close> the distance between neighbouring doubles there, and
  \<open>fl x\<close> the double nearest to \<open>x\<close>.  The exponent range of a double is not modelled
  (no overflow to \<open>Infinity\<close>, no gradual underflow): the fares of the handlers are far
  inside it.
\<close>

definition round_even :: "real \<Rightarrow> int" where
  "round_even x =
     (let n = \<lfloor>x\<rfloor>;
          f = x - of_int n
      in if f < 1 / 2 then n
         else if 1 / 2 < f then n + 1
         else if even n then n else n + 1)"

definition binade :: "real \<Rightarrow> int" where
  "binade x = \<lfloor>log 2 \<bar>x\<bar>\<rfloor>"

definition ulp :: "real \<Rightarrow> real" where
  "ulp x = 2 powr of_int (binade x - 52)"

definition fl :: "real \<Rightarrow> real" where
  "fl x = (if x = 0 then 0 else of_int (round_even (x / ulp x)) * ulp x)"

text \<open>
  \<open>rideSchema.methods.calculateFare\<close>: reads \<open>this.distance\<close> and \<open>this.duration\<close>;
  \<open>baseFare + distanceFare + timeFare\<close> is two additions, from the left.
\<close>

definition calculateFare :: "ride \<Rightarrow> fare" where
  "calculateFare this =
     (let baseFare = 500;
          perKmRate = 200;
          perMinuteRate = 10;
          distanceFare = fl (distance this * perKmRate);
          timeFare = fl (duration this * perMinuteRate);
          totalFare = fl (fl (baseFare + distanceFare) + timeFare)
      in \<lparr>fare_base = baseFare, fare_distance = distanceFare, fare_time = timeFare,
           fare_total = totalFare, fare_currency = ''XAF''\<rparr>)"

text \<open>
  The duration and fare computation inside \<open>requestRide\<close> (routes/rides.js, from
  \<open>const duration = Math.ceil(distance * 3)\<close> to the check of \<open>totalFare\<close>), for a
  distance that has already passed \<open>isNaN(distance) || distance <= 0\<close>.  It answers 400
  or yields the duration and the fare object.  \<open>Math.ceil\<close> is applied to the rounded
  product; its result is a whole number and so a double.
\<close>

definition requestRide_fare :: "real \<Rightarrow> response + (real \<times> fare)" where
  "requestRide_fare km =
     (let dur = of_int \<lceil>fl (km * 3)\<rceil> in
      if dur \<le> 0 then Inl (400, ''Invalid duration calculation.'')
      else
        let baseFare = 500;
            perKmRate = 200;
            perMinuteRate = 10;
            distanceFare = fl (km * perKmRate);
            timeFare = fl (dur * perMinuteRate);
            totalFare = fl (fl (baseFare + distanceFare) + timeFare);
            f = \<lparr>fare_base = baseFare, fare_distance = distanceFare, fare_time = timeFare,
                 fare_total = totalFare, fare_currency = ''XAF''\<rparr>
        in if totalFare \<le> 0 then Inl (400, ''Invalid fare calculation.'')
           else Inr (dur, f))"

text \<open>
  \<open>Math.atan2(y, x)\<close> on reals, and \<open>calculateDistance\<close>.  Points are arrays
  \<open>[longitude, latitude]\<close>; an array of another length gives \<open>NaN\<close>, and so does
  \<open>Math.sqrt\<close> of a negative number.
\<close>

definition atan2 :: "real \<Rightarrow> real \<Rightarrow> real" where
  "atan2 y x =
     (if 0 < x then arctan (y / x)
      else if x < 0 then (if 0 \<le> y then arctan (y / x) + pi else arctan (y / x) - pi)
      else if 0 < y then pi / 2
      else if y < 0 then - (pi / 2)
      else 0)"

definition haversine_a :: "real list \<Rightarrow> real list \<Rightarrow> real" where
  "haversine_a point1 point2 =
     (let dLat = (point2 ! 1 - point1 ! 1) * pi / 180;
          dLon = (point2 ! 0 - point1 ! 0) * pi / 180
      in sin (dLat / 2) * sin (dLat / 2) +
         cos (point1 ! 1 * pi / 180) * cos (point2 ! 1 * pi / 180) *
         sin (dLon / 2) * sin (dLon / 2))"

definition calculateDistance :: "real list \<Rightarrow> real list \<Rightarrow> real option" where
  "calculateDistance point1 point2 =
     (if length point1 \<noteq> 2 \<or> length point2 \<noteq> 2 then None
      else
        let R = 6371;
            a = haversine_a point1 point2
        in if a < 0 \<or> 1 - a < 0 then None
           else
             let c = 2 * atan2 (sqrt a) (sqrt (1 - a));
                 km = R * c
             in Some km)"

section \<open>Users and the store\<close>

datatype role = role_rider | role_driver | role_admin

record user =
  user_id :: objectId
  user_role :: role
  isAvailable :: bool
  isActive :: bool
  user_location :: "real list option"

datatype txType = deposit | withdrawal | transfer | ride_payment | refund | ride_earning

datatype txStatus = tx_pending | tx_completed | tx_failed | tx_cancelled

text \<open>
  A transaction as \<open>TransactionSchema\<close> stores it.  The paths of \<open>metadata\<close> that the
  schema declares are \<open>rideId\<close>, \<open>fromUserId\<close>, \<open>toUserId\<close>, \<open>paymentMethod\<close> and
  \<open>transactionId\<close> (which no handler sets).  The schema is strict: a key that it does not
  declare is dropped when an object is cast to a transaction.
\<close>

record txn =
  tx_type :: txType
  tx_amount :: real
  tx_status :: txStatus
  tx_description :: string
  tx_rideId :: "objectId option"
  tx_fromUserId :: "objectId option"
  tx_toUserId :: "objectId option"
  tx_paymentMethod :: "string option"
  tx_createdAt :: "date option"
  tx_completedAt :: "date option"

record wallet =
  wallet_userId :: objectId
  userRole :: role
  balance :: real
  wallet_isActive :: bool
  transactions :: "txn list"

record db =
  rides :: "ride list"
  users :: "user list"
  wallets :: "wallet list"

text \<open>
  \<open>Model.findById\<close> and \<open>Wallet.findOne({ userId })\<close> return the first matching document.
  \<open>doc.save()\<close> writes the paths the handler has modified to the stored document with the
  same id, so a save is an update function applied to that document (wallets are addressed
  by \<open>userId\<close>, on which the schema declares a unique index).
\<close>

definition Ride_findById :: "db \<Rightarrow> objectId \<Rightarrow> ride option" where
  "Ride_findById d i = find (\<lambda>r. ride_id r = i) (rides d)"

definition User_findById :: "db \<Rightarrow> objectId \<Rightarrow> user option" where
  "User_findById d i = find (\<lambda>u. user_id u = i) (users d)"

definition Wallet_findOne :: "db \<Rightarrow> objectId \<Rightarrow> wallet option" where
  "Wallet_findOne d i = find (\<lambda>w. wallet_userId w = i) (wallets d)"

definition Ride_save :: "db \<Rightarrow> objectId \<Rightarrow> (ride \<Rightarrow> ride) \<Rightarrow> db" where
  "Ride_save d i f = d\<lparr>rides := map (\<lambda>r. if ride_id r = i then f r else r) (rides d)\<rparr>"

definition User_save :: "db \<Rightarrow> objectId \<Rightarrow> (user \<Rightarrow> user) \<Rightarrow> db" where
  "User_save d i f = d\<lparr>users := map (\<lambda>u. if user_id u = i then f u else u) (users d)\<rparr>"

definition Wallet_save :: "db \<Rightarrow> objectId \<Rightarrow> (wallet \<Rightarrow> wallet) \<Rightarrow> db" where
  "Wallet_save d i f =
     d\<lparr>wallets := map (\<lambda>w. if wallet_userId w = i then f w else w) (wallets d)\<rparr>"

section \<open>Ride lifecycle (models/Ride.js, routes/rides.js)\<close>

text \<open>
  \<open>rideSchema.methods.updateStatus(newStatus, userId)\<close>: the changes it makes to the
  document before \<open>this.save()\<close>; the caller below stores them.
\<close>

definition updateStatus :: "rideStatus \<Rightarrow> string \<Rightarrow> date \<Rightarrow> ride \<Rightarrow> ride" where
  "updateStatus newStatus userId now this =
     (let this = this\<lparr>status := newStatus\<rparr> in
      case newStatus of
        accepted \<Rightarrow> this\<lparr>acceptedAt := Some now\<rparr>
      | in_progress \<Rightarrow> this\<lparr>startedAt := Some now\<rparr>
      | completed \<Rightarrow> this\<lparr>completedAt := Some now\<rparr>
      | cancelled \<Rightarrow> this\<lparr>cancelledAt := Some now, cancelledBy := Some userId\<rparr>
      | pending \<Rightarrow> this)"

text \<open>
  The body of a ride request.  \<open>place_location\<close> is \<open>None\<close> when the place has no
  \<open>location\<close> object, \<open>Some None\<close> when the object has no \<open>coordinates\<close>.
\<close>

record placeReq =
  place_address :: "string option"
  place_location :: "real list option option"

record rideReq =
  req_pickup :: "placeReq option"
  req_destination :: "placeReq option"
  req_vehicleType :: "string option"
  req_paymentMethod :: "string option"

definition is_active :: "ride \<Rightarrow> bool" where
  "is_active r = (status r = pending \<or> status r = accepted \<or> status r = in_progress)"

definition old_pending :: "objectId \<Rightarrow> date \<Rightarrow> ride \<Rightarrow> bool" where
  "old_pending uid now r =
     (rider r = uid \<and> status r = pending \<and> requestedAt r < now - 5 * 60 * 1000)"

definition or_default :: "string option \<Rightarrow> string \<Rightarrow> string" where
  "or_default s dflt = (case s of None \<Rightarrow> dflt | Some a \<Rightarrow> if a = [] then dflt else a)"

text \<open>
  \<open>requestRide\<close>, in the order of the source.  \<open>newId\<close> is the id the store gives the
  created document.  A \<open>TypeError\<close> (reading a property of \<open>undefined\<close>) and a schema
  validation error of \<open>Ride.create\<close> reach the \<open>catch\<close> block, which answers 500.
  The query for nearby drivers that follows the creation reads the store only and is left
  out.  The parts below are consecutive blocks of the handler: the clean-up of the
  caller's pending rides that were requested more than five minutes ago
  (\<open>Ride.find\<close> and \<open>Ride.deleteMany\<close> with the same filter), and, after the check for
  an active ride, the pickup data, the coordinate and distance checks, the creation.
\<close>

definition requestRide_cleanup :: "db \<Rightarrow> objectId \<Rightarrow> date \<Rightarrow> db" where
  "requestRide_cleanup d uid now =
     (let oldPendingRides = filter (old_pending uid now) (rides d)
      in if length oldPendingRides > 0
         then d\<lparr>rides := filter (\<lambda>r. \<not> old_pending uid now r) (rides d)\<rparr>
         else d)"

definition requestRide_pickupData ::
    "db \<Rightarrow> objectId \<Rightarrow> placeReq \<Rightarrow> response + (string option \<times> real list)" where
  "requestRide_pickupData d uid pickup =
     (case place_location pickup of
        Some (Some cs) \<Rightarrow> Inr (place_address pickup, cs)
      | _ \<Rightarrow>
         (case User_findById d uid of
            None \<Rightarrow> Inl (500, ''Failed to request ride'')
          | Some u \<Rightarrow>
             (case user_location u of
                None \<Rightarrow> Inl (400, ''User location not available. Please enable location services.'')
              | Some loc \<Rightarrow> Inr (Some (or_default (place_address pickup) ''Current Location''), loc))))"

definition requestRide_distance ::
    "real list \<Rightarrow> placeReq \<Rightarrow> response + (real list \<times> real)" where
  "requestRide_distance pickupCoords destination =
     (case place_location destination of
        None \<Rightarrow> Inl (500, ''Failed to request ride'')
      | Some destCoordsOpt \<Rightarrow>
         if length pickupCoords \<noteq> 2
         then Inl (400, ''Invalid pickup coordinates format. Expected [longitude, latitude].'')
         else
           (case destCoordsOpt of
              None \<Rightarrow> Inl (400, ''Invalid destination coordinates format. Expected [longitude, latitude].'')
            | Some destCoords \<Rightarrow>
               if length destCoords \<noteq> 2
               then Inl (400, ''Invalid destination coordinates format. Expected [longitude, latitude].'')
               else
                 (case calculateDistance pickupCoords destCoords of
                    None \<Rightarrow> Inl (400, ''Invalid distance calculation. Please check coordinates.'')
                  | Some km \<Rightarrow>
                     if km \<le> 0
                     then Inl (400, ''Invalid distance calculation. Please check coordinates.'')
                     else Inr (destCoords, km))))"

definition requestRide_create ::
    "db \<Rightarrow> date \<Rightarrow> objectId \<Rightarrow> objectId \<Rightarrow> rideReq \<Rightarrow> string option \<Rightarrow> real list \<Rightarrow>
     string \<Rightarrow> real list \<Rightarrow> real \<Rightarrow> real \<Rightarrow> fare \<Rightarrow> db \<times> response" where
  "requestRide_create d now newId uid body pickupAddress pickupCoords destAddress destCoords km dur f =
     (let vehicle = (case req_vehicleType body of None \<Rightarrow> ''standard'' | Some v \<Rightarrow> v);
          paymentMethod = (case req_paymentMethod body of None \<Rightarrow> ''cash'' | Some m \<Rightarrow> m)
      in if or_default pickupAddress [] = []
            \<or> vehicle \<notin> set [''standard'', ''premium'', ''bike'']
            \<or> paymentMethod \<notin> set [''momo'', ''orange_money'', ''card'', ''cash'', ''wallet'']
         then (d, (500, ''Failed to request ride''))
         else
           let newRide =
                 \<lparr>ride_id = newId, rider = uid, driver = None, status = pending,
                  pickup_address = or_default pickupAddress [],
                  pickup_coordinates = pickupCoords,
                  destination_address = destAddress,
                  destination_coordinates = destCoords,
                  distance = km, duration = dur, ride_fare = f,
                  payment_method = paymentMethod, payment_status = pay_pending,
                  driverRating = None, riderRating = None,
                  requestedAt = now, acceptedAt = None, startedAt = None,
                  completedAt = None, cancelledAt = None, cancelledBy = None,
                  cancellationReason = None, vehicleType = vehicle\<rparr>
           in (d\<lparr>rides := rides d @ [newRide]\<rparr>, (201, ''Ride requested successfully'')))"

definition requestRide :: "db \<Rightarrow> date \<Rightarrow> objectId \<Rightarrow> user \<Rightarrow> rideReq \<Rightarrow> db \<times> response" where
  "requestRide d now newId req_user body =
     (case (req_pickup body, req_destination body) of
        (Some pickup, Some destination) \<Rightarrow>
          (let uid = user_id req_user;
               d1 = requestRide_cleanup d uid now
           in case find (\<lambda>r. rider r = uid \<and> is_active r) (rides d1) of
                Some activeRide \<Rightarrow>
                  (d1, (400, ''You already have an active ride request. Please wait or cancel it first.''))
              | None \<Rightarrow>
                 (case requestRide_pickupData d1 uid pickup of
                    Inl resp \<Rightarrow> (d1, resp)
                  | Inr (pickupAddress, pickupCoords) \<Rightarrow>
                     (case requestRide_distance pickupCoords destination of
                        Inl resp \<Rightarrow> (d1, resp)
                      | Inr (destCoords, km) \<Rightarrow>
                         (case requestRide_fare km of
                            Inl resp \<Rightarrow> (d1, resp)
                          | Inr (dur, f) \<Rightarrow>
                             requestRide_create d1 now newId uid body pickupAddress pickupCoords
                               (or_default (place_address destination) ''Selected Destination'')
                               destCoords km dur f))))
      | _ \<Rightarrow> (d, (400, ''Pickup and destination are required'')))"

section \<open>Wallet ledger (models/Wallet.js)\<close>

datatype walletError =
    InsufficientBalance
  | WalletsNotFound
  | InsufficientOrInactive
  | ValidationError
  | StorageFault

text \<open>
  The schema's validators, which \<open>save\<close> runs on the paths that were modified:
  \<open>balance\<close> has \<open>min: 0\<close>; a transaction has \<open>amount\<close> with \<open>min: 0\<close> and a
  \<open>type\<close> from the enum, of which \<open>ride_earning\<close> is not a member; \<open>userRole\<close> is
  \<open>rider\<close> or \<open>driver\<close>.
\<close>

definition validTxn :: "txn \<Rightarrow> bool" where
  "validTxn t = (tx_type t \<noteq> ride_earning \<and> 0 \<le> tx_amount t)"

definition validBalance :: "real \<Rightarrow> bool" where
  "validBalance b = (0 \<le> b)"

text \<open>
  \<open>WalletSchema.methods.updateBalance(amount, type)\<close>: the change to the document in
  memory, or the thrown error; the \<open>this.save()\<close> that follows is written by the callers.
\<close>

definition updateBalance :: "real \<Rightarrow> txType \<Rightarrow> wallet \<Rightarrow> walletError + wallet" where
  "updateBalance amount type this =
     (if type = deposit \<or> type = transfer \<or> type = refund
      then Inr (this\<lparr>balance := balance this + amount\<rparr>)
      else if type = withdrawal \<or> type = ride_payment
      then (if balance this \<ge> amount
            then Inr (this\<lparr>balance := balance this - amount\<rparr>)
            else Inl InsufficientBalance)
      else Inr this)"

definition canWithdraw :: "wallet \<Rightarrow> real \<Rightarrow> bool" where
  "canWithdraw this amount = (balance this \<ge> amount \<and> wallet_isActive this)"

definition createWallet :: "db \<Rightarrow> objectId \<Rightarrow> role \<Rightarrow> (db \<times> wallet) option" where
  "createWallet d userId r =
     (if r = role_admin then None
      else
        let w = \<lparr>wallet_userId = userId, userRole = r, balance = 0,
                 wallet_isActive = True, transactions = []\<rparr>
        in Some (d\<lparr>wallets := wallets d @ [w]\<rparr>, w))"

definition save_balance :: "db \<Rightarrow> objectId \<Rightarrow> real \<Rightarrow> db" where
  "save_balance d userId b = Wallet_save d userId (\<lambda>w. w\<lparr>balance := b\<rparr>)"

definition save_push :: "db \<Rightarrow> objectId \<Rightarrow> txn \<Rightarrow> db" where
  "save_push d userId t = Wallet_save d userId (\<lambda>w. w\<lparr>transactions := transactions w @ [t]\<rparr>)"

text \<open>
  \<open>WalletSchema.statics.transferFunds\<close>.  The two wallets are read into memory, and every
  later write goes through the session: it is applied to the session's working copy of the
  store, which \<open>commitTransaction\<close> installs and \<open>abortTransaction\<close> discards.
  Every awaited store operation may throw; \<open>faulty\<close> says which ones do.
\<close>

datatype transferOp =
    Op_findFrom | Op_findTo | Op_saveDebit | Op_saveCredit | Op_saveFromLog | Op_saveToLog
  | Op_commit

record transferResult =
  res_fromWallet :: real
  res_toWallet :: real

definition role_name :: "role \<Rightarrow> string" where
  "role_name r = (case r of role_rider \<Rightarrow> ''rider'' | role_driver \<Rightarrow> ''driver'' | role_admin \<Rightarrow> ''admin'')"

definition transfer_fromTransaction ::
    "date \<Rightarrow> wallet \<Rightarrow> objectId \<Rightarrow> real \<Rightarrow> objectId option \<Rightarrow> txn" where
  "transfer_fromTransaction now toWallet toUserId amount rideId =
     \<lparr>tx_type = transfer, tx_amount = amount, tx_status = tx_completed,
      tx_description = ''Transfer to '' @ role_name (userRole toWallet), tx_rideId = rideId,
      tx_fromUserId = None, tx_toUserId = Some toUserId,
      tx_paymentMethod = None, tx_createdAt = Some now, tx_completedAt = Some now\<rparr>"

definition transfer_toTransaction ::
    "date \<Rightarrow> wallet \<Rightarrow> objectId \<Rightarrow> real \<Rightarrow> objectId option \<Rightarrow> txn" where
  "transfer_toTransaction now fromWallet fromUserId amount rideId =
     \<lparr>tx_type = transfer, tx_amount = amount, tx_status = tx_completed,
      tx_description = ''Payment from '' @ role_name (userRole fromWallet), tx_rideId = rideId,
      tx_fromUserId = Some fromUserId, tx_toUserId = None,
      tx_paymentMethod = None, tx_createdAt = Some now, tx_completedAt = Some now\<rparr>"

text \<open>The two \<open>updateBalance\<close> calls, each with its \<open>save\<close>.\<close>

definition transfer_balances ::
    "(transferOp \<Rightarrow> bool) \<Rightarrow> db \<Rightarrow> wallet \<Rightarrow> wallet \<Rightarrow> real \<Rightarrow> walletError + (db \<times> transferResult)" where
  "transfer_balances faulty work fromWallet toWallet amount =
     (case updateBalance amount ride_payment fromWallet of
        Inl e \<Rightarrow> Inl e
      | Inr fromWallet1 \<Rightarrow>
         if faulty Op_saveDebit then Inl StorageFault
         else if \<not> validBalance (balance fromWallet1) then Inl ValidationError
         else
           (case updateBalance amount transfer toWallet of
              Inl e \<Rightarrow> Inl e
            | Inr toWallet1 \<Rightarrow>
               if faulty Op_saveCredit then Inl StorageFault
               else if \<not> validBalance (balance toWallet1) then Inl ValidationError
               else Inr (save_balance
                           (save_balance work (wallet_userId fromWallet) (balance fromWallet1))
                           (wallet_userId toWallet) (balance toWallet1),
                         \<lparr>res_fromWallet = balance fromWallet1,
                          res_toWallet = balance toWallet1\<rparr>)))"

text \<open>The two pushes, each with its \<open>save({ session })\<close>, and the commit.\<close>

definition transfer_logs ::
    "(transferOp \<Rightarrow> bool) \<Rightarrow> db \<Rightarrow> objectId \<Rightarrow> objectId \<Rightarrow> txn \<Rightarrow> txn \<Rightarrow> walletError + db" where
  "transfer_logs faulty work fromUserId toUserId fromTransaction toTransaction =
     (if faulty Op_saveFromLog then Inl StorageFault
      else if \<not> validTxn fromTransaction then Inl ValidationError
      else if faulty Op_saveToLog then Inl StorageFault
      else if \<not> validTxn toTransaction then Inl ValidationError
      else if faulty Op_commit then Inl StorageFault
      else Inr (save_push (save_push work fromUserId fromTransaction) toUserId toTransaction))"

definition transferFunds_try ::
    "(transferOp \<Rightarrow> bool) \<Rightarrow> db \<Rightarrow> date \<Rightarrow> objectId \<Rightarrow> objectId \<Rightarrow> real \<Rightarrow> objectId option
     \<Rightarrow> walletError + (db \<times> transferResult)" where
  "transferFunds_try faulty d now fromUserId toUserId amount rideId =
     (if faulty Op_findFrom \<or> faulty Op_findTo then Inl StorageFault
      else
        case (Wallet_findOne d fromUserId, Wallet_findOne d toUserId) of
          (Some fromWallet, Some toWallet) \<Rightarrow>
            if \<not> canWithdraw fromWallet amount then Inl InsufficientOrInactive
            else
              (case transfer_balances faulty d fromWallet toWallet amount of
                 Inl e \<Rightarrow> Inl e
               | Inr (work, res) \<Rightarrow>
                  (case transfer_logs faulty work fromUserId toUserId
                          (transfer_fromTransaction now toWallet toUserId amount rideId)
                          (transfer_toTransaction now fromWallet fromUserId amount rideId) of
                     Inl e \<Rightarrow> Inl e
                   | Inr work' \<Rightarrow> Inr (work', res)))
        | _ \<Rightarrow> Inl WalletsNotFound)"

definition transferFunds ::
    "(transferOp \<Rightarrow> bool) \<Rightarrow> db \<Rightarrow> date \<Rightarrow> objectId \<Rightarrow> objectId \<Rightarrow> real \<Rightarrow> objectId option
     \<Rightarrow> db \<times> (walletError + transferResult)" where
  "transferFunds faulty d now fromUserId toUserId amount rideId =
     (case transferFunds_try faulty d now fromUserId toUserId amount rideId of
        Inl e \<Rightarrow> (d, Inl e)
      | Inr (work, res) \<Rightarrow> (work, Inr res))"

section \<open>Wallet routes (the wallet router)\<close>

text \<open>
  Decimal digits of a number, for the external references
  \<open>DEP_<Date.now()>_<user id>\<close> and \<open>WIT_<Date.now()>_<user id>\<close>.
\<close>

fun digits :: "nat \<Rightarrow> string" where
  "digits n =
     (if n < 10 then [''0123456789'' ! n]
      else digits (n div 10) @ [''0123456789'' ! (n mod 10)])"

declare digits.simps [simp del]

definition externalReference :: "string \<Rightarrow> date \<Rightarrow> objectId \<Rightarrow> string" where
  "externalReference prefix now userId = prefix @ ''_'' @ digits (nat now) @ ''_'' @ userId"

text \<open>
  The metadata object that \<open>POST /deposit\<close> and \<open>POST /withdraw\<close> build for the pending
  entry, and the entry that \<open>wallet.transactions.push(transaction)\<close> stores: of the three
  keys only \<open>paymentMethod\<close> is a path of the schema, so the phone number and the external
  reference are not stored.  Reading \<open>t.metadata.externalReference\<close> from a transaction of
  a wallet therefore gives \<open>undefined\<close>, whatever the transaction.
\<close>

record requestMetadata =
  md_paymentMethod :: string
  md_phoneNumber :: string
  md_externalReference :: string

definition pending_txn :: "txType \<Rightarrow> real \<Rightarrow> string \<Rightarrow> requestMetadata \<Rightarrow> date \<Rightarrow> txn" where
  "pending_txn type amount description metadata now =
     \<lparr>tx_type = type, tx_amount = amount, tx_status = tx_pending,
      tx_description = description, tx_rideId = None, tx_fromUserId = None,
      tx_toUserId = None, tx_paymentMethod = Some (md_paymentMethod metadata),
      tx_createdAt = Some now, tx_completedAt = None\<rparr>"

definition metadata_externalReference :: "txn \<Rightarrow> string option" where
  "metadata_externalReference t = None"

text \<open>
  The fallback of \<open>POST /deposit\<close> and \<open>POST /withdraw\<close> when the gateway call throws:
  the last transaction of the wallet is marked completed and the balance in memory is
  changed and saved.
\<close>

definition complete_last :: "date \<Rightarrow> txn list \<Rightarrow> txn list" where
  "complete_last now ts =
     (if ts = [] then []
      else butlast ts @ [(last ts)\<lparr>tx_status := tx_completed, tx_completedAt := Some now\<rparr>])"

text \<open>
  \<open>POST /deposit\<close>.  \<open>campayOk\<close> says whether \<open>campayService.collectPayment\<close>
  returned; when it throws the handler completes the deposit in its test mode.
\<close>

definition deposit_route ::
    "db \<Rightarrow> date \<Rightarrow> user \<Rightarrow> real \<Rightarrow> string \<Rightarrow> string \<Rightarrow> bool \<Rightarrow> db \<times> response" where
  "deposit_route d now req_user amount paymentMethod phoneNumber campayOk =
     (if amount \<le> 0 then (d, (400, ''Valid amount is required''))
      else if phoneNumber = [] then (d, (400, ''Phone number is required for mobile money payments''))
      else
        case (case Wallet_findOne d (user_id req_user) of
                Some w \<Rightarrow> Some (d, w)
              | None \<Rightarrow> createWallet d (user_id req_user) (user_role req_user)) of
          None \<Rightarrow> (d, (500, ''Failed to process deposit''))
        | Some (d1, wallet) \<Rightarrow>
           let ref = externalReference ''DEP'' now (user_id req_user);
               transaction = pending_txn deposit amount (''Deposit via '' @ paymentMethod)
                               \<lparr>md_paymentMethod = paymentMethod, md_phoneNumber = phoneNumber,
                                md_externalReference = ref\<rparr> now;
               d2 = save_push d1 (user_id req_user) transaction
           in if campayOk
              then (d2, (200, ''Payment initiated successfully. Please complete the payment on your phone.''))
              else (Wallet_save d2 (user_id req_user)
                      (\<lambda>w. w\<lparr>transactions := complete_last now (transactions w),
                              balance := balance wallet + amount\<rparr>),
                    (200, ''Test deposit completed successfully (Campay API unavailable - using test mode)'')))"




text \<open>
  \<open>POST /campay-webhook\<close>.  The body carries the external reference (a string), the
  gateway's status and the gateway's amount.  The handler looks for the first wallet that
  holds a transaction whose \<open>metadata.externalReference\<close> is the reference, and in it for
  the first such transaction (\<open>has_ref\<close>); what it does with the transaction follows the
  source, branch by branch.
\<close>

fun update_first :: "('a \<Rightarrow> bool) \<Rightarrow> ('a \<Rightarrow> 'a) \<Rightarrow> 'a list \<Rightarrow> 'a list" where
  "update_first P f [] = []"
| "update_first P f (x # xs) = (if P x then f x # xs else x # update_first P f xs)"

definition has_ref :: "string \<Rightarrow> txn \<Rightarrow> bool" where
  "has_ref ref t = (metadata_externalReference t = Some ref)"

definition mark_completed :: "date \<Rightarrow> txn \<Rightarrow> txn" where
  "mark_completed now t = t\<lparr>tx_status := tx_completed, tx_completedAt := Some now\<rparr>"

definition mark_failed :: "txn \<Rightarrow> txn" where
  "mark_failed t = t\<lparr>tx_status := tx_failed\<rparr>"

definition campay_webhook :: "db \<Rightarrow> date \<Rightarrow> string \<Rightarrow> string \<Rightarrow> real \<Rightarrow> db \<times> response" where
  "campay_webhook d now ref gatewayStatus amount =
     (case find (\<lambda>w. \<exists>t \<in> set (transactions w). has_ref ref t) (wallets d) of
        None \<Rightarrow> (d, (404, ''Transaction not found''))
      | Some wallet \<Rightarrow>
         (case find (has_ref ref) (transactions wallet) of
            None \<Rightarrow> (d, (404, ''Transaction not found''))
          | Some transaction \<Rightarrow>
             if gatewayStatus = ''SUCCESSFUL''
             then
               (case (if tx_type transaction = deposit then updateBalance amount deposit wallet
                      else if tx_type transaction = withdrawal then updateBalance amount withdrawal wallet
                      else Inr wallet) of
                  Inl e \<Rightarrow> (d, (500, ''Failed to process webhook''))
                | Inr wallet1 \<Rightarrow>
                   if \<not> validBalance (balance wallet1) \<and> balance wallet1 \<noteq> balance wallet
                   then (d, (500, ''Failed to process webhook''))
                   else (Wallet_save d (wallet_userId wallet)
                           (\<lambda>w. w\<lparr>transactions :=
                                     update_first (has_ref ref) (mark_completed now) (transactions w),
                                   balance := balance wallet1\<rparr>),
                         (200, ''Webhook processed successfully'')))
             else if gatewayStatus = ''FAILED''
             then (Wallet_save d (wallet_userId wallet)
                     (\<lambda>w. w\<lparr>transactions := update_first (has_ref ref) mark_failed (transactions w)\<rparr>),
                   (200, ''Webhook processed successfully''))
             else (d, (200, ''Webhook processed successfully''))))"

section \<open>Ride handlers (routes/rides.js, the users router)\<close>

text \<open>
  \<open>acceptRide\<close>.  The handler awaits four store operations in turn: it reads the ride
  and checks its status, reads the driver and checks the availability, saves the ride
  (\<open>ride.driver = req.user.id\<close> and \<open>updateStatus('accepted')\<close>), saves the driver.
  Between two awaits other requests run, so each operation with the synchronous code that
  follows it is one atomic step; the program counter says which operation comes next.
\<close>

datatype acceptPc =
    Accept_findRide
  | Accept_findDriver
  | Accept_saveRide
  | Accept_saveDriver
  | Accept_done response

definition acceptRide_step :: "date \<Rightarrow> user \<Rightarrow> objectId \<Rightarrow> db \<times> acceptPc \<Rightarrow> db \<times> acceptPc" where
  "acceptRide_step now req_user rideId s =
     (case s of (d, pc) \<Rightarrow>
        (case pc of
           Accept_findRide \<Rightarrow>
             (case Ride_findById d rideId of
                None \<Rightarrow> (d, Accept_done (404, ''Ride not found''))
              | Some ride \<Rightarrow>
                 if status ride \<noteq> pending
                 then (d, Accept_done (400, ''Ride is not available for acceptance''))
                 else (d, Accept_findDriver))
         | Accept_findDriver \<Rightarrow>
             (case User_findById d (user_id req_user) of
                None \<Rightarrow> (d, Accept_done (500, ''Failed to accept ride''))
              | Some drv \<Rightarrow>
                 if \<not> isAvailable drv
                 then (d, Accept_done (400, ''You are not available for rides''))
                 else (d, Accept_saveRide))
         | Accept_saveRide \<Rightarrow>
             (Ride_save d rideId
                (\<lambda>r. updateStatus accepted (user_id req_user) now (r\<lparr>driver := Some (user_id req_user)\<rparr>)),
              Accept_saveDriver)
         | Accept_saveDriver \<Rightarrow>
             (User_save d (user_id req_user) (\<lambda>u. u\<lparr>isAvailable := False\<rparr>),
              Accept_done (200, ''Ride accepted successfully''))
         | Accept_done resp \<Rightarrow> (d, Accept_done resp)))"

text \<open>The handler run on its own, from the first await to the response.\<close>

definition acceptRide :: "db \<Rightarrow> date \<Rightarrow> user \<Rightarrow> objectId \<Rightarrow> db \<times> response" where
  "acceptRide d now req_user rideId =
     (case Ride_findById d rideId of
        None \<Rightarrow> (d, (404, ''Ride not found''))
      | Some ride \<Rightarrow>
         if status ride \<noteq> pending
         then (d, (400, ''Ride is not available for acceptance''))
         else
           (case User_findById d (user_id req_user) of
              None \<Rightarrow> (d, (500, ''Failed to accept ride''))
            | Some drv \<Rightarrow>
               if \<not> isAvailable drv
               then (d, (400, ''You are not available for rides''))
               else
                 (User_save
                    (Ride_save d rideId
                       (\<lambda>r. updateStatus accepted (user_id req_user) now
                               (r\<lparr>driver := Some (user_id req_user)\<rparr>)))
                    (user_id req_user) (\<lambda>u. u\<lparr>isAvailable := False\<rparr>),
                  (200, ''Ride accepted successfully''))))"

text \<open>
  Two \<open>acceptRide\<close> requests in flight on the same ride.  The schedule says, step by
  step, which request runs its next operation (\<open>True\<close> the first, \<open>False\<close> the second).
\<close>

fun accept_race ::
    "(date \<times> user) \<Rightarrow> (date \<times> user) \<Rightarrow> objectId \<Rightarrow> bool list \<Rightarrow> db \<times> acceptPc \<times> acceptPc
     \<Rightarrow> db \<times> acceptPc \<times> acceptPc" where
  "accept_race a b rideId [] s = s"
| "accept_race a b rideId (True # sched) (d, pa, pb) =
     (case acceptRide_step (fst a) (snd a) rideId (d, pa) of
        (d', pa') \<Rightarrow> accept_race a b rideId sched (d', pa', pb))"
| "accept_race a b rideId (False # sched) (d, pa, pb) =
     (case acceptRide_step (fst b) (snd b) rideId (d, pb) of
        (d', pb') \<Rightarrow> accept_race a b rideId sched (d', pa, pb'))"

text \<open>Requests that arrive one after the other, each run to its response.\<close>

fun accept_all :: "db \<Rightarrow> objectId \<Rightarrow> (date \<times> user) list \<Rightarrow> db \<times> response list" where
  "accept_all d rideId [] = (d, [])"
| "accept_all d rideId (c # cs) =
     (case acceptRide d (fst c) (snd c) rideId of
        (d', resp) \<Rightarrow>
          (case accept_all d' rideId cs of (d'', resps) \<Rightarrow> (d'', resp # resps)))"

text \<open>
  \<open>startRide\<close>.  \<open>ride.driver.toString()\<close> on a ride without a driver throws a
  \<open>TypeError\<close>, which the \<open>catch\<close> block answers with 500.
\<close>

definition startRide :: "db \<Rightarrow> date \<Rightarrow> user \<Rightarrow> objectId \<Rightarrow> db \<times> response" where
  "startRide d now req_user rideId =
     (case Ride_findById d rideId of
        None \<Rightarrow> (d, (404, ''Ride not found''))
      | Some ride \<Rightarrow>
         (case driver ride of
            None \<Rightarrow> (d, (500, ''Failed to start ride''))
          | Some drv \<Rightarrow>
             if drv \<noteq> user_id req_user then (d, (403, ''Not authorized to start this ride''))
             else if status ride \<noteq> accepted
             then (d, (400, ''Ride must be accepted before starting''))
             else (Ride_save d rideId (updateStatus in_progress (user_id req_user) now),
                   (200, ''Ride started successfully''))))"

text \<open>
  \<open>completeRide\<close>.  The earnings aggregation that follows the driver's save reads the
  store only, inside its own \<open>try\<close>, and is left out.
\<close>

definition completeRide ::
    "(transferOp \<Rightarrow> bool) \<Rightarrow> db \<Rightarrow> date \<Rightarrow> user \<Rightarrow> objectId \<Rightarrow> db \<times> response" where
  "completeRide faulty d now req_user rideId =
     (case Ride_findById d rideId of
        None \<Rightarrow> (d, (404, ''Ride not found''))
      | Some ride \<Rightarrow>
         (case driver ride of
            None \<Rightarrow> (d, (500, ''Failed to complete ride''))
          | Some drv \<Rightarrow>
             if drv \<noteq> user_id req_user then (d, (403, ''Not authorized to complete this ride''))
             else if status ride \<noteq> in_progress
             then (d, (400, ''Ride must be in progress to complete''))
             else
               let d1 = Ride_save d rideId (updateStatus completed (user_id req_user) now);
                   d2 = (if payment_method ride = ''wallet''
                         then
                           (case transferFunds faulty d1 now (rider ride) (user_id req_user)
                                   (fare_total (ride_fare ride)) (Some rideId) of
                              (d', Inr res) \<Rightarrow>
                                Ride_save d' rideId (\<lambda>r. r\<lparr>payment_status := pay_completed\<rparr>)
                            | (d', Inl e) \<Rightarrow>
                                Ride_save d' rideId (\<lambda>r. r\<lparr>payment_status := pay_failed\<rparr>))
                         else Ride_save d1 rideId (\<lambda>r. r\<lparr>payment_status := pay_completed\<rparr>))
               in (case User_findById d2 (user_id req_user) of
                     None \<Rightarrow> (d2, (500, ''Failed to complete ride''))
                   | Some driverDoc \<Rightarrow>
                       (User_save d2 (user_id req_user) (\<lambda>u. u\<lparr>isAvailable := True\<rparr>),
                        (200, ''Ride completed successfully'')))))"

text \<open>\<open>cancelRide\<close>.\<close>

definition cancelRide :: "db \<Rightarrow> date \<Rightarrow> user \<Rightarrow> objectId \<Rightarrow> string option \<Rightarrow> db \<times> response" where
  "cancelRide d now req_user rideId reason =
     (case Ride_findById d rideId of
        None \<Rightarrow> (d, (404, ''Ride not found''))
      | Some ride \<Rightarrow>
         let isRider = (rider ride = user_id req_user);
             isDriver = (driver ride = Some (user_id req_user))
         in if \<not> isRider \<and> \<not> isDriver then (d, (403, ''Not authorized to cancel this ride''))
            else if status ride = completed \<or> status ride = cancelled
            then (d, (400, ''Ride cannot be cancelled''))
            else
              let who = (if isRider then ''rider'' else ''driver'');
                  d1 = Ride_save d rideId (updateStatus cancelled who now);
                  d2 = Ride_save d1 rideId (\<lambda>r. r\<lparr>cancellationReason := reason\<rparr>)
              in if isDriver
                 then (case User_findById d2 (user_id req_user) of
                         None \<Rightarrow> (d2, (500, ''Failed to cancel ride''))
                       | Some driverDoc \<Rightarrow>
                           (User_save d2 (user_id req_user) (\<lambda>u. u\<lparr>isAvailable := True\<rparr>),
                            (200, ''Ride cancelled successfully'')))
                 else (d2, (200, ''Ride cancelled successfully'')))"

text \<open>
  \<open>rateRide\<close>.  The ride is read with \<open>populate('driver rider')\<close>, so \<open>ride.driver\<close> and
  \<open>ride.rider\<close> are the user documents, or \<open>null\<close> when there is none; reading \<open>_id\<close>
  of \<open>null\<close> throws.  After the save the handler recomputes the average rating of the
  rated user; that writes only the user's \<open>rating\<close> field, which this model does not
  hold, and is taken to complete.
\<close>

definition rateRide ::
    "db \<Rightarrow> date \<Rightarrow> user \<Rightarrow> objectId \<Rightarrow> real option \<Rightarrow> string option \<Rightarrow> string \<Rightarrow> db \<times> response" where
  "rateRide d now req_user rideId ratingOpt commentOpt ratedBy =
     (case ratingOpt of
        None \<Rightarrow> (d, (400, ''Rating must be between 1 and 5''))
      | Some stars \<Rightarrow>
         if stars = 0 \<or> stars < 1 \<or> stars > 5 then (d, (400, ''Rating must be between 1 and 5''))
         else if ratedBy \<noteq> ''driver'' \<and> ratedBy \<noteq> ''rider''
         then (d, (400, ''ratedBy must be either driver or rider''))
         else
           (case Ride_findById d rideId of
              None \<Rightarrow> (d, (404, ''Ride not found''))
            | Some ride \<Rightarrow>
               if status ride \<noteq> completed then (d, (400, ''Can only rate completed rides''))
               else
                 let populatedDriver = (case driver ride of None \<Rightarrow> None | Some i \<Rightarrow> User_findById d i);
                     populatedRider = User_findById d (rider ride);
                     ratingData = \<lparr>rating_value = stars, rating_comment = or_default commentOpt [],
                                   rating_createdAt = now\<rparr>
                 in if ratedBy = ''driver''
                    then
                      (case populatedDriver of
                         None \<Rightarrow> (d, (500, ''Failed to submit rating''))
                       | Some drv \<Rightarrow>
                          if user_id drv \<noteq> user_id req_user
                          then (d, (403, ''Only the assigned driver can rate this ride''))
                          else
                            let d1 = Ride_save d rideId (\<lambda>r. r\<lparr>driverRating := Some ratingData\<rparr>)
                            in (case populatedRider of
                                  None \<Rightarrow> (d1, (500, ''Failed to submit rating''))
                                | Some targetUser \<Rightarrow> (d1, (200, ''Rating submitted successfully''))))
                    else
                      (case populatedRider of
                         None \<Rightarrow> (d, (500, ''Failed to submit rating''))
                       | Some rdr \<Rightarrow>
                          if user_id rdr \<noteq> user_id req_user
                          then (d, (403, ''Only the rider can rate this ride''))
                          else
                            let d1 = Ride_save d rideId (\<lambda>r. r\<lparr>riderRating := Some ratingData\<rparr>)
                            in (case populatedDriver of
                                  None \<Rightarrow> (d1, (500, ''Failed to submit rating''))
                                | Some targetUser \<Rightarrow> (d1, (200, ''Rating submitted successfully''))))))"

text \<open>\<open>toggleAvailability\<close> and \<open>updateDriverStatus\<close> of the users router.\<close>

definition toggleAvailability :: "db \<Rightarrow> user \<Rightarrow> db \<times> response" where
  "toggleAvailability d req_user =
     (case User_findById d (user_id req_user) of
        None \<Rightarrow> (d, (500, ''Failed to toggle availability''))
      | Some u \<Rightarrow>
         if user_role u \<noteq> role_driver then (d, (403, ''Only drivers can toggle availability''))
         else (User_save d (user_id req_user) (\<lambda>v. v\<lparr>isAvailable := \<not> isAvailable u\<rparr>),
               (200, if \<not> isAvailable u then ''Driver available'' else ''Driver unavailable'')))"

definition updateDriverStatus :: "db \<Rightarrow> user \<Rightarrow> bool \<Rightarrow> db \<times> response" where
  "updateDriverStatus d req_user avail =
     (case User_findById d (user_id req_user) of
        None \<Rightarrow> (d, (500, ''Failed to update driver status''))
      | Some u \<Rightarrow>
         if user_role u \<noteq> role_driver
         then (d, (403, ''Only drivers can update availability status''))
         else (User_save d (user_id req_user) (\<lambda>v. v\<lparr>isAvailable := avail\<rparr>),
               (200, if avail then ''Driver available'' else ''Driver unavailable'')))"

section \<open>Example documents\<close>

text \<open>Users, rides and stores on which the theorems below are evaluated.\<close>

definition alice :: user where
  "alice = \<lparr>user_id = ''alice'', user_role = role_rider, isAvailable = True, isActive = True,
            user_location = Some [11.5174, 3.8480]\<rparr>"

definition bob :: user where
  "bob = \<lparr>user_id = ''bob'', user_role = role_driver, isAvailable = True, isActive = True,
          user_location = Some [11.52, 3.85]\<rparr>"

definition carol :: user where
  "carol = \<lparr>user_id = ''carol'', user_role = role_driver, isAvailable = True, isActive = True,
            user_location = Some [11.53, 3.86]\<rparr>"

definition ride1 :: ride where
  "ride1 = \<lparr>ride_id = ''ride1'', rider = ''alice'', driver = None, status = pending,
            pickup_address = ''Bastos'', pickup_coordinates = [11.5174, 3.8480],
            destination_address = ''Mvan'', destination_coordinates = [11.5274, 3.8580],
            distance = 2.5, duration = 8,
            ride_fare = \<lparr>fare_base = 500, fare_distance = 500, fare_time = 80,
                         fare_total = 1080, fare_currency = ''XAF''\<rparr>,
            payment_method = ''cash'', payment_status = pay_pending,
            driverRating = None, riderRating = None,
            requestedAt = 0, acceptedAt = None, startedAt = None, completedAt = None,
            cancelledAt = None, cancelledBy = None, cancellationReason = None,
            vehicleType = ''standard''\<rparr>"

definition db1 :: db where
  "db1 = \<lparr>rides = [ride1], users = [alice, bob, carol], wallets = []\<rparr>"

definition bob_busy :: user where
  "bob_busy = bob\<lparr>isAvailable := False\<rparr>"

definition ride2 :: ride where
  "ride2 = ride1\<lparr>ride_id := ''ride2'', driver := Some ''bob'', status := accepted,
                 acceptedAt := Some 500\<rparr>"

definition db2 :: db where
  "db2 = \<lparr>rides = [ride2], users = [alice, bob_busy, carol], wallets = []\<rparr>"

definition ride3 :: ride where
  "ride3 = ride1\<lparr>ride_id := ''ride3'', driver := Some ''bob'', status := completed,
                 acceptedAt := Some 500, startedAt := Some 600, completedAt := Some 900,
                 payment_status := pay_completed,
                 driverRating := Some \<lparr>rating_value = 5, rating_comment = ''great'',
                                        rating_createdAt = 950\<rparr>\<rparr>"

definition db3 :: db where
  "db3 = \<lparr>rides = [ride3], users = [alice, bob, carol], wallets = []\<rparr>"

text \<open>The two points of the specification's distance example, as [longitude, latitude].\<close>

definition yaounde1 :: "real list" where
  "yaounde1 = [11.5174, 3.8480]"

definition yaounde2 :: "real list" where
  "yaounde2 = [11.5274, 3.8580]"

text \<open>A well-formed ride request between the two points.\<close>

definition body1 :: rideReq where
  "body1 = \<lparr>req_pickup = Some \<lparr>place_address = Some ''Bastos'',
                                  place_location = Some (Some yaounde1)\<rparr>,
             req_destination = Some \<lparr>place_address = Some ''Mvan'',
                                       place_location = Some (Some yaounde2)\<rparr>,
             req_vehicleType = None, req_paymentMethod = Some ''cash''\<rparr>"

section \<open>The ledger of a wallet\<close>

text \<open>
  The sum the specification compares the balance with.  A completed transaction is a
  credit when its type is \<open>deposit\<close> or \<open>refund\<close>, or \<open>transfer\<close> with the sender's id
  in its metadata (a transfer received).  The debits the specification lists are the
  completed \<open>withdrawal\<close> and \<open>ride_payment\<close> entries; \<open>transferFunds\<close> logs the
  sender's entry with type \<open>transfer\<close> and the recipient's id, and \<open>is_debit\<close> counts
  that entry too.  \<open>store_ok\<close> is the invariant of the collection: one wallet per user
  (the unique index), each with a balance that is not negative and equals its ledger.
\<close>

definition is_credit :: "txn \<Rightarrow> bool" where
  "is_credit t =
     (tx_status t = tx_completed \<and>
      (tx_type t = deposit \<or> tx_type t = refund \<or> (tx_type t = transfer \<and> tx_fromUserId t \<noteq> None)))"


definition is_debit :: "txn \<Rightarrow> bool" where
  "is_debit t =
     (tx_status t = tx_completed \<and>
      (tx_type t = withdrawal \<or> tx_type t = ride_payment \<or> (tx_type t = transfer \<and> tx_fromUserId t = None)))"

definition signed_amount :: "(txn \<Rightarrow> bool) \<Rightarrow> txn \<Rightarrow> real" where
  "signed_amount debit t = (if is_credit t then tx_amount t else if debit t then - tx_amount t else 0)"

definition ledger :: "(txn \<Rightarrow> bool) \<Rightarrow> txn list \<Rightarrow> real" where
  "ledger debit ts = sum_list (map (signed_amount debit) ts)"


definition ledger_ok :: "wallet \<Rightarrow> bool" where
  "ledger_ok w = (balance w = ledger is_debit (transactions w) \<and> 0 \<le> balance w)"

definition store_ok :: "db \<Rightarrow> bool" where
  "store_ok d = (distinct (map wallet_userId (wallets d)) \<and> list_all ledger_ok (wallets d))"

text \<open>Example wallets: a store with two funded wallets, and one with a pending deposit.\<close>

definition dep_alice :: txn where
  "dep_alice = \<lparr>tx_type = deposit, tx_amount = 2000, tx_status = tx_completed,
                 tx_description = ''Deposit via mtn_momo'', tx_rideId = None,
                 tx_fromUserId = None, tx_toUserId = None,
                 tx_paymentMethod = Some ''mtn_momo'',
                 tx_createdAt = Some 100, tx_completedAt = Some 200\<rparr>"

definition dep_bob :: txn where
  "dep_bob = dep_alice\<lparr>tx_amount := 500\<rparr>"

definition wallet_alice :: wallet where
  "wallet_alice = \<lparr>wallet_userId = ''alice'', userRole = role_rider, balance = 2000,
                    wallet_isActive = True, transactions = [dep_alice]\<rparr>"

definition wallet_bob :: wallet where
  "wallet_bob = \<lparr>wallet_userId = ''bob'', userRole = role_driver, balance = 500,
                  wallet_isActive = True, transactions = [dep_bob]\<rparr>"

definition db_w :: db where
  "db_w = \<lparr>rides = [], users = [alice, bob, carol], wallets = [wallet_alice, wallet_bob]\<rparr>"

definition no_fault :: "transferOp \<Rightarrow> bool" where
  "no_fault op = False"

definition credit_fault :: "transferOp \<Rightarrow> bool" where
  "credit_fault op = (op = Op_saveCredit)"

definition dep_pending :: txn where
  "dep_pending =
     pending_txn deposit 300 ''Deposit via mtn_momo''
       \<lparr>md_paymentMethod = ''mtn_momo'', md_phoneNumber = ''677000000'',
        md_externalReference = ''DEP_7000_alice''\<rparr> 7000"

definition db_p :: db where
  "db_p = \<lparr>rides = [], users = [alice, bob, carol],
           wallets = [wallet_alice\<lparr>transactions := [dep_alice, dep_pending]\<rparr>, wallet_bob]\<rparr>"



section \<open>Helper lemmas about the store\<close>

lemma find_map_key:
  assumes "\<And>x. key (f x) = key x"
  shows "find (\<lambda>x. key x = j) (map (\<lambda>x. if key x = i then f x else x) xs) =
         map_option (\<lambda>x. if key x = i then f x else x) (find (\<lambda>x. key x = j) xs)"
  by (induction xs) (auto simp: assms)

lemma find_key: "find (\<lambda>x. key x = j) xs = Some x \<Longrightarrow> key x = j"
  by (auto simp: find_Some_iff)

lemma Ride_findById_id: "Ride_findById d i = Some r \<Longrightarrow> ride_id r = i"
  unfolding Ride_findById_def by (rule find_key)

lemma User_findById_id: "User_findById d i = Some u \<Longrightarrow> user_id u = i"
  unfolding User_findById_def by (rule find_key)

lemma Ride_findById_save:
  assumes "\<And>r. ride_id (f r) = ride_id r"
  shows "Ride_findById (Ride_save d i f) j =
         map_option (\<lambda>r. if ride_id r = i then f r else r) (Ride_findById d j)"
  unfolding Ride_findById_def Ride_save_def
  using find_map_key [of ride_id f j i "rides d", OF assms] by simp

lemma User_findById_save:
  assumes "\<And>u. user_id (f u) = user_id u"
  shows "User_findById (User_save d i f) j =
         map_option (\<lambda>u. if user_id u = i then f u else u) (User_findById d j)"
  unfolding User_findById_def User_save_def
  using find_map_key [of user_id f j i "users d", OF assms] by simp

lemma ride_id_updateStatus [simp]: "ride_id (updateStatus s w n r) = ride_id r"
  by (cases s) (simp_all add: updateStatus_def)

lemma store_fields [simp]:
  "users (Ride_save d i f) = users d"
  "wallets (Ride_save d i f) = wallets d"
  "rides (User_save d i g) = rides d"
  "wallets (User_save d i g) = wallets d"
  "rides (Wallet_save d i h) = rides d"
  "users (Wallet_save d i h) = users d"
  by (simp_all add: Ride_save_def User_save_def Wallet_save_def)

lemma finders_other [simp]:
  "User_findById (Ride_save d i f) j = User_findById d j"
  "Ride_findById (User_save d i g) j = Ride_findById d j"
  "User_findById (Wallet_save d i h) j = User_findById d j"
  "Ride_findById (Wallet_save d i h) j = Ride_findById d j"
  "Wallet_findOne (Ride_save d i f) j = Wallet_findOne d j"
  "Wallet_findOne (User_save d i g) j = Wallet_findOne d j"
  by (simp_all add: User_findById_def Ride_findById_def Wallet_findOne_def)

lemma ride_ids_save:
  assumes "\<And>r. ride_id (f r) = ride_id r"
  shows "map ride_id (rides (Ride_save d i f)) = map ride_id (rides d)"
  by (simp add: Ride_save_def assms comp_def cong: map_cong)

section \<open>The fare (C8)\<close>

text \<open>Rounding to the nearest double: bounds, monotonicity, error, exact cases.\<close>

lemma round_even_of_int [simp]: "round_even (of_int n) = n"
  by (simp add: round_even_def)

lemma round_even_ge_floor: "\<lfloor>x\<rfloor> \<le> round_even x"
  by (simp add: round_even_def Let_def)

lemma round_even_le_ceiling: "round_even x \<le> \<lceil>x\<rceil>"
proof (cases "x = of_int \<lfloor>x\<rfloor>")
  case True
  then have "round_even x = \<lfloor>x\<rfloor>" by (metis round_even_of_int)
  then show ?thesis by (simp add: floor_le_ceiling)
next
  case False
  then have "\<lceil>x\<rceil> = \<lfloor>x\<rfloor> + 1" by (metis ceiling_altdef)
  then show ?thesis by (simp add: round_even_def Let_def)
qed

lemma round_even_mono:
  assumes "x \<le> y" shows "round_even x \<le> round_even y"
proof (cases "\<lfloor>x\<rfloor> = \<lfloor>y\<rfloor>")
  case True
  then show ?thesis using assms by (auto simp: round_even_def Let_def)
next
  case False
  then have "\<lfloor>x\<rfloor> < \<lfloor>y\<rfloor>" using assms floor_mono [of x y] by linarith
  then have "\<lfloor>x\<rfloor> + 1 \<le> \<lfloor>y\<rfloor>" by simp
  moreover have "round_even x \<le> \<lfloor>x\<rfloor> + 1" by (simp add: round_even_def Let_def)
  ultimately show ?thesis using round_even_ge_floor [of y] by linarith
qed

lemma round_even_error: "\<bar>of_int (round_even x) - x\<bar> \<le> 1/2"
proof -
  have "of_int \<lfloor>x\<rfloor> \<le> x" "x < of_int \<lfloor>x\<rfloor> + 1" by linarith+
  then show ?thesis by (auto simp: round_even_def Let_def abs_le_iff)
qed

lemma binade_bounds:
  assumes "0 < x"
  shows "2 powr of_int (binade x) \<le> x" "x < 2 powr of_int (binade x + 1)"
  using floor_log_eq_powr_iff [of x 2 "binade x"] assms by (simp_all add: binade_def)

lemma binade_eqI:
  assumes "2 powr of_int e \<le> x" "x < 2 powr of_int (e + 1)"
  shows "binade x = e"
proof -
  have "0 < x" using assms(1) powr_gt_zero [of 2 "of_int e"] by linarith
  then show ?thesis using floor_log_eq_powr_iff [of x 2 e] assms by (simp add: binade_def)
qed

lemma ulp_pos [simp]: "0 < ulp x"
  by (simp add: ulp_def)

lemma ulp_nonneg [simp]: "0 \<le> ulp x"
  by (simp add: ulp_def)

lemma ulp_neq0 [simp]: "ulp x \<noteq> 0"
  by (simp add: ulp_def)

lemma fl_unfold: "x \<noteq> 0 \<Longrightarrow> fl x = of_int (round_even (x / ulp x)) * ulp x"
  by (simp add: fl_def)

lemma ulp_mult: "ulp x * 2 powr of_int k = 2 powr of_int (binade x - 52 + k)"
  by (simp add: ulp_def powr_add [symmetric])

lemma ulp_52: "ulp x * 2 ^ 52 = 2 powr of_int (binade x)"
  using ulp_mult [of x 52] by (simp add: powr_numeral)

lemma ulp_53: "ulp x * 2 ^ 53 = 2 powr of_int (binade x + 1)"
proof -
  have "binade x - 52 + 53 = binade x + 1" by simp
  then show ?thesis using ulp_mult [of x 53] by (simp only: of_int_numeral powr_numeral)
qed

lemma scaled_bounds:
  assumes "0 < x"
  shows "2 ^ 52 \<le> x / ulp x" "x / ulp x < 2 ^ 53"
proof -
  show "2 ^ 52 \<le> x / ulp x"
    using binade_bounds(1) [OF assms] ulp_52 [of x] by (simp add: pos_le_divide_eq mult.commute)
  show "x / ulp x < 2 ^ 53"
    using binade_bounds(2) [OF assms] ulp_53 [of x] by (simp add: pos_divide_less_eq mult.commute)
qed

lemma round_scaled_bounds:
  assumes "0 < x"
  shows "(2::int) ^ 52 \<le> round_even (x / ulp x)" "round_even (x / ulp x) \<le> (2::int) ^ 53"
proof -
  have "round_even (of_int (2 ^ 52)) \<le> round_even (x / ulp x)"
    by (rule round_even_mono) (use scaled_bounds(1) [OF assms] in simp)
  then show "(2::int) ^ 52 \<le> round_even (x / ulp x)" by (simp only: round_even_of_int)
  have "round_even (x / ulp x) \<le> round_even (of_int (2 ^ 53))"
    by (rule round_even_mono) (use scaled_bounds(2) [OF assms] in simp)
  then show "round_even (x / ulp x) \<le> (2::int) ^ 53" by (simp only: round_even_of_int)
qed

lemma fl_pos_bounds:
  assumes "0 < x"
  shows "2 powr of_int (binade x) \<le> fl x" "fl x \<le> 2 powr of_int (binade x + 1)"
proof -
  have a: "(2::real) ^ 52 \<le> of_int (round_even (x / ulp x))"
    using round_scaled_bounds(1) [OF assms] by (metis of_int_le_iff of_int_numeral of_int_power)
  have b: "of_int (round_even (x / ulp x)) \<le> (2::real) ^ 53"
    using round_scaled_bounds(2) [OF assms] by (metis of_int_le_iff of_int_numeral of_int_power)
  have f: "fl x = of_int (round_even (x / ulp x)) * ulp x"
    using assms by (simp add: fl_unfold)
  have "2 ^ 52 * ulp x \<le> of_int (round_even (x / ulp x)) * ulp x"
    using a by (intro mult_right_mono) simp_all
  moreover have "2 ^ 52 * ulp x = 2 powr of_int (binade x)"
    using ulp_52 [of x] by (simp only: mult.commute)
  ultimately show "2 powr of_int (binade x) \<le> fl x"
    using f by linarith
  have "of_int (round_even (x / ulp x)) * ulp x \<le> 2 ^ 53 * ulp x"
    using b by (intro mult_right_mono) simp_all
  moreover have "2 ^ 53 * ulp x = 2 powr of_int (binade x + 1)"
    using ulp_53 [of x] by (simp only: mult.commute)
  ultimately show "fl x \<le> 2 powr of_int (binade x + 1)"
    using f by linarith
qed

lemma fl_pos: "0 < x \<Longrightarrow> 0 < fl x"
  using fl_pos_bounds(1) [of x] powr_gt_zero [of 2 "of_int (binade x)"] by linarith

lemma binade_mono:
  assumes "0 < x" "x \<le> y" shows "binade x \<le> binade y"
  unfolding binade_def using assms by (intro floor_mono) simp

lemma fl_mono_pos:
  assumes "0 < x" "x \<le> y" shows "fl x \<le> fl y"
proof (cases "binade x = binade y")
  case True
  then have u: "ulp x = ulp y" by (simp add: ulp_def)
  have "x / ulp y \<le> y / ulp y" using assms by (simp add: divide_right_mono)
  then have "round_even (x / ulp y) \<le> round_even (y / ulp y)" by (rule round_even_mono)
  then have "(of_int (round_even (x / ulp y)) :: real) \<le> of_int (round_even (y / ulp y))" by simp
  then have "of_int (round_even (x / ulp y)) * ulp y \<le> of_int (round_even (y / ulp y)) * ulp y"
    by (intro mult_right_mono) simp_all
  then show ?thesis using assms u by (simp add: fl_def)
next
  case False
  have y: "0 < y" using assms by linarith
  have "binade x + 1 \<le> binade y" using False binade_mono [OF assms] by linarith
  then have "(2::real) powr of_int (binade x + 1) \<le> 2 powr of_int (binade y)"
    by (intro powr_mono) simp_all
  then show ?thesis using fl_pos_bounds(2) [OF assms(1)] fl_pos_bounds(1) [OF y] by linarith
qed

lemma fl_error:
  assumes "0 < x" shows "\<bar>fl x - x\<bar> \<le> x / 2 ^ 53"
proof -
  have "fl x - x = (of_int (round_even (x / ulp x)) - x / ulp x) * ulp x"
    using assms by (simp add: fl_unfold algebra_simps)
  then have "\<bar>fl x - x\<bar> = \<bar>of_int (round_even (x / ulp x)) - x / ulp x\<bar> * ulp x"
    by (simp add: abs_mult)
  also have "\<dots> \<le> 1/2 * ulp x"
    by (intro mult_right_mono round_even_error) simp
  also have "\<dots> \<le> x / 2 ^ 53"
  proof -
    have "ulp x * 2 ^ 52 \<le> x" using binade_bounds(1) [OF assms] ulp_52 [of x] by simp
    then show ?thesis by (simp add: field_simps)
  qed
  finally show ?thesis .
qed


text \<open>A number with at most 53 significant bits is a double.\<close>

lemma fl_exact_scaled:
  assumes "x \<noteq> 0" "x / ulp x = of_int m"
  shows "fl x = x"
proof -
  have "x = of_int m * ulp x" using assms(2) by (simp add: nonzero_divide_eq_eq)
  then show ?thesis using assms by (simp add: fl_unfold)
qed

lemma fl_dyadic:
  assumes "\<bar>m\<bar> < 2 ^ 53" shows "fl (of_int m / 2 ^ k) = of_int m / 2 ^ k"
proof (cases "m = 0")
  case True then show ?thesis by (simp add: fl_def)
next
  case False
  define x :: real where "x = of_int m / 2 ^ k"
  have x0: "x \<noteq> 0" using False x_def by simp
  have ax: "0 < \<bar>x\<bar>" using x0 by simp
  have "\<bar>real_of_int m\<bar> < 2 ^ 53" using assms
    by (metis of_int_abs of_int_less_iff of_int_numeral of_int_power)
  then have "\<bar>x\<bar> * 2 ^ k < 2 ^ 53" by (simp add: x_def abs_divide)
  then have "\<bar>x\<bar> < 2 ^ 53 / 2 ^ k" by (simp add: pos_less_divide_eq)
  also have "\<dots> = 2 powr (53 - real k)" by (simp add: powr_diff powr_numeral powr_realpow)
  finally have "log 2 \<bar>x\<bar> < 53 - real k" using ax by (simp add: log_less_iff)
  then have "\<lfloor>log 2 \<bar>x\<bar>\<rfloor> < 53 - int k" by (simp add: floor_less_iff)
  then have b1: "binade x \<le> 52 - int k" by (simp add: binade_def)
  define j where "j = nat (52 - int k - binade x)"
  have j: "int j = 52 - int k - binade x" using b1 by (simp add: j_def)
  have "ulp x = 2 powr (- real (k + j))"
  proof -
    have "binade x - 52 = - int (k + j)" using j by simp
    then have "real_of_int (binade x - 52) = - real (k + j)" by (metis of_int_minus of_int_of_nat_eq)
    then show ?thesis by (simp only: ulp_def)
  qed
  moreover have "(2::real) powr (- real n) = 1 / 2 ^ n" for n :: nat
    by (simp add: powr_minus_divide powr_realpow)
  ultimately have "ulp x = 1 / 2 ^ (k + j)" by (simp only:)
  then have "x / ulp x = of_int (m * 2 ^ j)" by (simp add: x_def power_add)
  then show ?thesis using fl_exact_scaled [OF x0] x_def by blast
qed

lemma fl_of_int:
  assumes "\<bar>n\<bar> < 2 ^ 53" shows "fl (of_int n) = of_int n"
  using fl_dyadic [OF assms, of 0] by simp

lemma fl_numerals:
  "fl 1 = 1" "fl 80 = 80" "fl 150 = 150" "fl 500 = 500" "fl 1000 = 1000" "fl 1080 = 1080"
  "fl 1150 = 1150" "fl (15 / 2) = 15 / 2" "fl 10 = 10" "fl 510 = 510"
  using fl_of_int [of 1] fl_of_int [of 80] fl_of_int [of 150] fl_of_int [of 500]
        fl_of_int [of 1000] fl_of_int [of 1080] fl_of_int [of 1150] fl_dyadic [of 15 1]
        fl_of_int [of 10] fl_of_int [of 510]
  by simp_all

lemma fl_error_nonneg:
  assumes "0 \<le> x" shows "\<bar>fl x - x\<bar> \<le> x / 2 ^ 53"
proof (cases "x = 0")
  case True then show ?thesis by (simp add: fl_def)
next
  case False
  then have "0 < x" using assms by simp
  then show ?thesis by (rule fl_error)
qed

lemma fl_nonneg: "0 \<le> x \<Longrightarrow> 0 \<le> fl x"
  using fl_pos [of x] by (cases "x = 0") (auto simp: fl_def intro: less_imp_le)

text \<open>\<open>Math.ceil\<close> of a rounded value is the ceiling of the exact value or one below it.\<close>

lemma ceiling_fl:
  assumes "0 < y" "\<lceil>y\<rceil> < 2 ^ 53"
  shows "\<lceil>y\<rceil> - 1 \<le> \<lceil>fl y\<rceil>" and "\<lceil>fl y\<rceil> \<le> \<lceil>y\<rceil>"
proof -
  define n where "n = \<lceil>y\<rceil>"
  have n1: "1 \<le> n" using assms(1) by (simp add: n_def)
  have fn: "fl (of_int n) = of_int n"
    by (rule fl_of_int) (use n1 assms(2) in \<open>simp add: n_def\<close>)
  have "y \<le> of_int n" by (simp add: n_def)
  then have "fl y \<le> fl (of_int n)" using assms(1) by (rule fl_mono_pos [rotated])
  then have "fl y \<le> of_int n" using fn by simp
  then show "\<lceil>fl y\<rceil> \<le> \<lceil>y\<rceil>" by (simp add: ceiling_le_iff n_def)
  show "\<lceil>y\<rceil> - 1 \<le> \<lceil>fl y\<rceil>"
  proof (cases "n = 1")
    case True
    have "0 < fl y" using assms(1) by (rule fl_pos)
    then have "0 < \<lceil>fl y\<rceil>" by simp
    then show ?thesis using True by (simp add: n_def)
  next
    case False
    then have p: "0 < real_of_int (n - 1)" using n1 by simp
    have f1: "fl (of_int (n - 1)) = of_int (n - 1)"
      by (rule fl_of_int) (use n1 assms(2) in \<open>simp add: n_def\<close>)
    have "real_of_int (n - 1) < y" unfolding n_def by linarith
    then have "fl (of_int (n - 1)) \<le> fl y" using p by (intro fl_mono_pos) simp_all
    then have "of_int (n - 1) \<le> fl y" using f1 by simp
    then have "n - 1 \<le> \<lceil>fl y\<rceil>" by (meson le_of_int_ceiling of_int_le_iff order_trans)
    then show ?thesis by (simp add: n_def)
  qed
qed

text \<open>
  The rounded product can fall on a whole number that the exact product exceeds: for the
  double next above one third the product with 3 is \<open>1 + 2^-53\<close>, half-way between the
  doubles \<open>1\<close> and \<open>1 + 2^-52\<close>, and rounds to \<open>1\<close>.
\<close>

lemma fl_tie: "fl (6004799503160662 / 2 ^ 54 * 3) = 1"
proof -
  define x :: real where "x = 6004799503160662 / 2 ^ 54 * 3"
  have x: "x = 1 + 1 / 2 ^ 53" by (simp add: x_def)
  have b: "binade x = 0"
    by (rule binade_eqI) (simp_all add: x)
  have u: "ulp x = 1 / 2 ^ 52" by (simp add: ulp_def b powr_minus_divide)
  have "x / ulp x = x * 2 ^ 52" by (simp only: u) simp
  then have s: "x / ulp x = 2 ^ 52 + 1 / 2" by (simp add: x)
  have f: "\<lfloor>(2::real) ^ 52 + 1 / 2\<rfloor> = 2 ^ 52" by (simp add: floor_eq_iff)
  have r: "round_even (2 ^ 52 + 1 / 2) = 2 ^ 52"
    unfolding round_even_def f by (simp add: Let_def)
  have e: "round_even (x / ulp x) = 2 ^ 52" using r by (simp only: s)
  have x0: "x \<noteq> 0" by (simp add: x)
  have "fl x = of_int (round_even (x / ulp x)) * ulp x" using x0 by (rule fl_unfold)
  also have "\<dots> = of_int (2 ^ 52) * ulp x" by (simp only: e)
  also have "\<dots> = of_int (2 ^ 52) * (1 / 2 ^ 52)" by (simp only: u)
  also have "\<dots> = 1" by simp
  finally have "fl x = 1" .
  then show ?thesis by (simp only: x_def)
qed


lemma fare_total_error:
  assumes "0 \<le> d" "0 \<le> t"
  shows "\<bar>fl (fl (500 + fl (d * 200)) + fl (t * 10)) - (500 + d * 200 + t * 10)\<bar>
           \<le> (500 + d * 200 + t * 10) / 2 ^ 51"
proof -
  define a where "a = fl (d * 200)"
  define b where "b = fl (500 + a)"
  define c where "c = fl (t * 10)"
  define T where "T = fl (b + c)"
  have a0: "0 \<le> a" unfolding a_def by (rule fl_nonneg) (use assms in simp)
  have b0: "0 \<le> b" unfolding b_def by (rule fl_nonneg) (use a0 in simp)
  have c0: "0 \<le> c" unfolding c_def by (rule fl_nonneg) (use assms in simp)
  have ea: "\<bar>a - d * 200\<bar> \<le> d * 200 / 2 ^ 53"
    unfolding a_def by (rule fl_error_nonneg) (use assms in simp)
  have eb: "\<bar>b - (500 + a)\<bar> \<le> (500 + a) / 2 ^ 53"
    unfolding b_def by (rule fl_error_nonneg) (use a0 in simp)
  have ec: "\<bar>c - t * 10\<bar> \<le> t * 10 / 2 ^ 53"
    unfolding c_def by (rule fl_error_nonneg) (use assms in simp)
  have eT: "\<bar>T - (b + c)\<bar> \<le> (b + c) / 2 ^ 53"
    unfolding T_def by (rule fl_error_nonneg) (use b0 c0 in simp)
  have "\<bar>T - (500 + d * 200 + t * 10)\<bar> \<le> (500 + d * 200 + t * 10) / 2 ^ 51"
    using ea eb ec eT assms unfolding abs_le_iff by simp
  then show ?thesis by (simp only: T_def b_def c_def a_def)
qed

lemma requestRide_fare_pos:
  assumes "0 < km"
  shows "requestRide_fare km =
           Inr (of_int \<lceil>fl (km * 3)\<rceil>,
                \<lparr>fare_base = 500, fare_distance = fl (km * 200),
                 fare_time = fl (of_int \<lceil>fl (km * 3)\<rceil> * 10),
                 fare_total = fl (fl (500 + fl (km * 200)) + fl (of_int \<lceil>fl (km * 3)\<rceil> * 10)),
                 fare_currency = ''XAF''\<rparr>)"
proof -
  have "0 < fl (km * 3)" by (rule fl_pos) (use assms in simp)
  then have c: "0 < \<lceil>fl (km * 3)\<rceil>" by simp
  then have c': "(0::real) < of_int \<lceil>fl (km * 3)\<rceil>" by simp
  have "0 \<le> fl (km * 200)" by (rule fl_nonneg) (use assms in simp)
  then have "0 < fl (500 + fl (km * 200))" by (intro fl_pos) simp
  moreover have "0 \<le> fl (of_int \<lceil>fl (km * 3)\<rceil> * 10)" by (rule fl_nonneg) (use c' in simp)
  ultimately have "0 < fl (fl (500 + fl (km * 200)) + fl (of_int \<lceil>fl (km * 3)\<rceil> * 10))"
    by (intro fl_pos) simp
  then show ?thesis
    using c' by (simp add: requestRide_fare_def Let_def not_le)
qed

text \<open>
  C8.  The fare is a function of the ride's distance and duration alone:
  \<open>total = 500 + distance * 200 + duration * 10\<close>, each product and sum rounded to a
  double, which for distances and durations that are not negative is within
  \<open>2^-51\<close> of the exact value, relatively.  For a positive distance the request handler
  derives the duration as \<open>Math.ceil(distance * 3)\<close>, the ceiling of the rounded product,
  and stores exactly the fare that \<open>calculateFare\<close> gives for that distance and duration;
  for a distance up to a million kilometres that duration is the ceiling of the exact
  product or one less.  At distance 2.5 and duration 15 the total is exactly 1150.
\<close>

theorem fare_formula:
  "fare_total (calculateFare r) = fl (fl (500 + fl (distance r * 200)) + fl (duration r * 10))
   \<and> (distance r = distance r' \<and> duration r = duration r' \<longrightarrow> calculateFare r = calculateFare r')
   \<and> (0 \<le> distance r \<and> 0 \<le> duration r \<longrightarrow>
        \<bar>fare_total (calculateFare r) - (500 + distance r * 200 + duration r * 10)\<bar>
          \<le> (500 + distance r * 200 + duration r * 10) / 2 ^ 51)
   \<and> (0 < km \<longrightarrow>
        requestRide_fare km =
          Inr (of_int \<lceil>fl (km * 3)\<rceil>,
               calculateFare (r\<lparr>distance := km, duration := of_int \<lceil>fl (km * 3)\<rceil>\<rparr>)))
   \<and> (0 < km \<and> km \<le> 1000000 \<longrightarrow>
        \<lceil>km * 3\<rceil> - 1 \<le> \<lceil>fl (km * 3)\<rceil> \<and> \<lceil>fl (km * 3)\<rceil> \<le> \<lceil>km * 3\<rceil>)
   \<and> fare_total (calculateFare (r\<lparr>distance := 2.5, duration := 15\<rparr>)) = 1150"
proof -
  have a: "fare_total (calculateFare r) = fl (fl (500 + fl (distance r * 200)) + fl (duration r * 10))"
    by (simp add: calculateFare_def Let_def)
  have b: "calculateFare r = calculateFare r'" if "distance r = distance r'" "duration r = duration r'"
    using that by (simp add: calculateFare_def Let_def)
  have c: "\<bar>fare_total (calculateFare r) - (500 + distance r * 200 + duration r * 10)\<bar>
          \<le> (500 + distance r * 200 + duration r * 10) / 2 ^ 51"
    if "0 \<le> distance r" "0 \<le> duration r"
    unfolding a using that by (rule fare_total_error)
  have d: "requestRide_fare km =
          Inr (of_int \<lceil>fl (km * 3)\<rceil>,
               calculateFare (r\<lparr>distance := km, duration := of_int \<lceil>fl (km * 3)\<rceil>\<rparr>))"
    if k: "0 < km"
    using requestRide_fare_pos [OF k] by (simp add: calculateFare_def Let_def)
  have d': "\<lceil>km * 3\<rceil> - 1 \<le> \<lceil>fl (km * 3)\<rceil> \<and> \<lceil>fl (km * 3)\<rceil> \<le> \<lceil>km * 3\<rceil>"
    if k: "0 < km" "km \<le> 1000000"
  proof -
    have p: "0 < km * 3" using k by simp
    have "km * 3 \<le> 3000000" using k by simp
    then have "\<lceil>km * 3\<rceil> \<le> 3000000" by (simp add: ceiling_le_iff)
    then have q: "\<lceil>km * 3\<rceil> < 2 ^ 53" by simp
    show ?thesis using ceiling_fl [OF p q] by simp
  qed
  have e: "fare_total (calculateFare (r\<lparr>distance := 2.5, duration := 15\<rparr>)) = 1150"
    by (simp add: calculateFare_def Let_def fl_numerals)
  show ?thesis using a b c d d' e by blast
qed

theorem fare_formula_witness:
  "requestRide_fare 2.5 =
     Inr (8, \<lparr>fare_base = 500, fare_distance = 500, fare_time = 80, fare_total = 1080,
              fare_currency = ''XAF''\<rparr>)
   \<and> calculateFare ride1 = calculateFare (ride1\<lparr>payment_method := ''wallet''\<rparr>)
   \<and> \<bar>fare_total (calculateFare ride1) - (500 + distance ride1 * 200 + duration ride1 * 10)\<bar>
        \<le> (500 + distance ride1 * 200 + duration ride1 * 10) / 2 ^ 51"
proof -
  have c: "\<lceil>(15 / 2 :: real)\<rceil> = 8" by (simp add: ceiling_eq_iff)
  have n: "0 \<le> distance ride1" "0 \<le> duration ride1" by (simp_all add: ride1_def)
  have k: "(0::real) < 2.5" "(2.5::real) \<le> 1000000" by simp_all
  have f: "fl (5 / 2 * 3) = 15 / 2" by (simp add: fl_numerals)
  show ?thesis
    using fare_formula [of ride1 "ride1\<lparr>payment_method := ''wallet''\<rparr>" "2.5"] c n k f
    by (simp add: calculateFare_def Let_def fl_numerals)
qed

text \<open>
  The lower of the two values occurs: at the double next above one third the handler
  stores the duration 1, where the ceiling of the exact product is 2.
\<close>

lemma requestRide_fare_rounds_the_product:
  "map_sum id fst (requestRide_fare (6004799503160662 / 2 ^ 54)) = Inr 1
   \<and> \<lceil>(6004799503160662 / 2 ^ 54 :: real) * 3\<rceil> = 2"
proof -
  have p: "(0::real) < 6004799503160662 / 2 ^ 54" by simp
  have c: "\<lceil>(6004799503160662 / 2 ^ 54 :: real) * 3\<rceil> = 2" by (simp add: ceiling_eq_iff)
  show ?thesis
    using requestRide_fare_pos [OF p] c by (simp only: fl_tie) simp
qed

section \<open>Starting and completing a ride that has no driver (C10)\<close>

text \<open>
  C10.  For a ride with no driver assigned, \<open>startRide\<close> and \<open>completeRide\<close> read
  \<open>ride.driver.toString()\<close> before they look at the status: the handler throws, answers
  500 (not the 400 of the status guard), and leaves the store as it was.
\<close>

theorem start_complete_without_driver:
  assumes "Ride_findById d rideId = Some r" and "driver r = None"
  shows "startRide d now req_user rideId = (d, (500, ''Failed to start ride''))
         \<and> completeRide faulty d now req_user rideId = (d, (500, ''Failed to complete ride''))"
  using assms by (simp add: startRide_def completeRide_def)

theorem start_complete_without_driver_witness:
  "startRide db1 1000 bob ''ride1'' = (db1, (500, ''Failed to start ride''))
   \<and> completeRide (\<lambda>_. False) db1 1000 bob ''ride1'' = (db1, (500, ''Failed to complete ride''))"
proof -
  have f: "Ride_findById db1 ''ride1'' = Some ride1"
    by (simp add: Ride_findById_def db1_def ride1_def)
  have n: "driver ride1 = None" by (simp add: ride1_def)
  show ?thesis using start_complete_without_driver [OF f n] by simp
qed

lemma saved_fields:
  "users (User_save d i g) = map (\<lambda>u. if user_id u = i then g u else u) (users d)"
  "rides (Ride_save d i f) = map (\<lambda>r. if ride_id r = i then f r else r) (rides d)"
  "wallets (Wallet_save d i h) = map (\<lambda>w. if wallet_userId w = i then h w else w) (wallets d)"
  by (simp_all add: Ride_save_def User_save_def Wallet_save_def)

section \<open>Cancellation and driver availability (C5)\<close>

lemma cancelRide_ok:
  assumes f: "Ride_findById d rideId = Some r"
      and ok: "cancelRide d now req_user rideId reason = (d', (200, msg))"
  shows "(rider r = user_id req_user \<or> driver r = Some (user_id req_user))
         \<and> status r \<noteq> completed \<and> status r \<noteq> cancelled
         \<and> Ride_findById d' rideId =
             Some (r\<lparr>status := cancelled, cancelledAt := Some now,
                     cancelledBy := Some (if rider r = user_id req_user then ''rider'' else ''driver''),
                     cancellationReason := reason\<rparr>)
         \<and> users d' = (if driver r = Some (user_id req_user)
                        then map (\<lambda>u. if user_id u = user_id req_user then u\<lparr>isAvailable := True\<rparr> else u) (users d)
                        else users d)"
proof -
  have i: "ride_id r = rideId" using f by (rule Ride_findById_id)
  show ?thesis
    using ok f i
    by (auto simp: cancelRide_def Let_def Ride_findById_save updateStatus_def saved_fields
             split: if_splits option.splits)
qed

lemma acceptRide_ok:
  assumes ok: "acceptRide d now req_user rideId = (d', (200, msg))"
  shows "\<exists>r. Ride_findById d rideId = Some r \<and> status r = pending
           \<and> Ride_findById d' rideId =
               Some (r\<lparr>driver := Some (user_id req_user), status := accepted, acceptedAt := Some now\<rparr>)
           \<and> users d' = map (\<lambda>u. if user_id u = user_id req_user then u\<lparr>isAvailable := False\<rparr> else u) (users d)"
  using ok
  by (auto simp: acceptRide_def Ride_findById_save updateStatus_def saved_fields
                 Ride_findById_id
           split: if_splits option.splits)

lemma transferFunds_frame:
  assumes "transferFunds faulty d now a b amount rideId = (d', res)"
  shows "users d' = users d \<and> rides d' = rides d"
  using assms
  by (auto simp: transferFunds_def transferFunds_try_def transfer_logs_def transfer_balances_def
                 save_push_def save_balance_def
           split: if_splits option.splits sum.splits prod.splits)

lemma completeRide_ok:
  assumes ok: "completeRide faulty d now req_user rideId = (d', (200, msg))"
  shows "users d' = map (\<lambda>u. if user_id u = user_id req_user then u\<lparr>isAvailable := True\<rparr> else u) (users d)"
  using ok
  by (auto simp: completeRide_def Let_def saved_fields
           dest: transferFunds_frame
           split: if_splits option.splits prod.splits sum.splits)

lemma toggle_flips:
  assumes "User_findById d (user_id req_user) = Some u" and "user_role u = role_driver"
  shows "User_findById (fst (toggleAvailability d req_user)) (user_id req_user) =
           Some (u\<lparr>isAvailable := \<not> isAvailable u\<rparr>)"
  using assms User_findById_id [OF assms(1)]
  by (simp add: toggleAvailability_def User_findById_save)

text \<open>
  C5, as the code has it.  A successful cancel is made by the rider or by the assigned
  driver of a ride that is pending, accepted or in progress (there is no cancel by the
  system); it sets \<open>status\<close>, \<open>cancelledAt\<close>, \<open>cancelledBy\<close> (\<open>rider\<close> when the
  caller is the rider, \<open>driver\<close> otherwise) and the reason.  The driver is marked
  available again exactly when the caller is the assigned driver; a cancel by the rider
  leaves every user document as it was.  A successful accept marks the caller unavailable,
  a successful completion marks the caller available, and \<open>toggleAvailability\<close> flips the
  flag of a driver whatever the rides are.
\<close>

theorem cancel_and_availability:
  "(Ride_findById d rideId = Some r \<and> cancelRide d now req_user rideId reason = (d', (200, msg)) \<longrightarrow>
      (rider r = user_id req_user \<or> driver r = Some (user_id req_user))
      \<and> is_active r
      \<and> Ride_findById d' rideId =
            Some (r\<lparr>status := cancelled, cancelledAt := Some now,
                    cancelledBy := Some (if rider r = user_id req_user then ''rider'' else ''driver''),
                    cancellationReason := reason\<rparr>)
      \<and> users d' = (if driver r = Some (user_id req_user)
                     then map (\<lambda>u. if user_id u = user_id req_user then u\<lparr>isAvailable := True\<rparr> else u) (users d)
                     else users d))
   \<and> (acceptRide d now req_user rideId = (d', (200, msg)) \<longrightarrow>
        users d' = map (\<lambda>u. if user_id u = user_id req_user then u\<lparr>isAvailable := False\<rparr> else u) (users d))
   \<and> (completeRide faulty d now req_user rideId = (d', (200, msg)) \<longrightarrow>
        users d' = map (\<lambda>u. if user_id u = user_id req_user then u\<lparr>isAvailable := True\<rparr> else u) (users d))
   \<and> (User_findById d (user_id req_user) = Some u \<and> user_role u = role_driver \<longrightarrow>
        User_findById (fst (toggleAvailability d req_user)) (user_id req_user) =
          Some (u\<lparr>isAvailable := \<not> isAvailable u\<rparr>))"
proof -
  have "is_active r" if "status r \<noteq> completed" "status r \<noteq> cancelled"
    using that by (cases "status r") (simp_all add: is_active_def)
  then show ?thesis
    using cancelRide_ok [of d rideId r now req_user reason d' msg]
          acceptRide_ok [of d now req_user rideId d' msg]
          completeRide_ok [of faulty d now req_user rideId d' msg]
          toggle_flips [of d req_user u]
    by blast
qed

theorem cancel_and_availability_witness:
  "cancelRide db2 2000 bob_busy ''ride2'' (Some ''flat tyre'') =
     (\<lparr>rides = [ride2\<lparr>status := cancelled, cancelledAt := Some 2000,
                          cancelledBy := Some ''driver'',
                          cancellationReason := Some ''flat tyre''\<rparr>],
       users = [alice, bob, carol], wallets = []\<rparr>,
      (200, ''Ride cancelled successfully''))
   \<and> users (fst (acceptRide db1 1000 bob ''ride1'')) = [alice, bob_busy, carol]
   \<and> User_findById (fst (toggleAvailability db1 bob)) ''bob'' = Some bob_busy"
proof -
  have c: "cancelRide db2 2000 bob_busy ''ride2'' (Some ''flat tyre'') =
     (\<lparr>rides = [ride2\<lparr>status := cancelled, cancelledAt := Some 2000,
                          cancelledBy := Some ''driver'',
                          cancellationReason := Some ''flat tyre''\<rparr>],
       users = [alice, bob, carol], wallets = []\<rparr>,
      (200, ''Ride cancelled successfully''))"
    by (simp add: cancelRide_def db2_def ride2_def ride1_def bob_busy_def bob_def alice_def carol_def
                  Ride_findById_def User_findById_def Ride_save_def User_save_def updateStatus_def Let_def)
  have a: "acceptRide db1 1000 bob ''ride1'' =
     (\<lparr>rides = [ride1\<lparr>driver := Some ''bob'', status := accepted, acceptedAt := Some 1000\<rparr>],
       users = [alice, bob_busy, carol], wallets = []\<rparr>, (200, ''Ride accepted successfully''))"
    by (simp add: acceptRide_def db1_def ride1_def bob_busy_def bob_def alice_def carol_def
                  Ride_findById_def User_findById_def Ride_save_def User_save_def updateStatus_def)
  have f: "Ride_findById db2 ''ride2'' = Some ride2"
    by (simp add: Ride_findById_def db2_def ride2_def ride1_def)
  have u: "User_findById db1 (user_id bob) = Some bob" "user_role bob = role_driver"
    by (simp_all add: User_findById_def db1_def bob_def alice_def)
  show ?thesis
    using cancel_and_availability [of db2 "''ride2''" ride2 2000 bob_busy "Some ''flat tyre''"
            "fst (cancelRide db2 2000 bob_busy ''ride2'' (Some ''flat tyre''))"
            "''Ride cancelled successfully''" ]
          cancel_and_availability [of db1 "''ride1''" ride1 1000 bob None
            "fst (acceptRide db1 1000 bob ''ride1'')" "''Ride accepted successfully''" _ bob]
          c a f u
    by (simp add: bob_busy_def bob_def)
qed

text \<open>
  The claim as the specification states it fails when the rider cancels an accepted ride:
  the cancel succeeds and the assigned driver stays unavailable.
\<close>

theorem rider_cancel_keeps_driver_unavailable:
  "Ride_findById db2 ''ride2'' = Some ride2 \<and> driver ride2 = Some ''bob'' \<and> status ride2 = accepted
   \<and> snd (cancelRide db2 2000 alice ''ride2'' None) = (200, ''Ride cancelled successfully'')
   \<and> map_option isAvailable (User_findById (fst (cancelRide db2 2000 alice ''ride2'' None)) ''bob'')
       = Some False"
  by (simp add: cancelRide_def db2_def ride2_def ride1_def bob_busy_def bob_def alice_def carol_def
                Ride_findById_def User_findById_def Ride_save_def User_save_def updateStatus_def Let_def)

section \<open>Ratings (C7)\<close>

lemma rateRide_changes:
  assumes "rateRide d now req_user rideId ratingOpt commentOpt ratedBy = (d', resp)"
      and "d' \<noteq> d \<or> fst resp = 200"
  shows "\<exists>r stars. Ride_findById d rideId = Some r \<and> status r = completed
           \<and> ratingOpt = Some stars \<and> 1 \<le> stars \<and> stars \<le> 5
           \<and> ((ratedBy = ''driver'' \<and> driver r = Some (user_id req_user))
               \<or> (ratedBy = ''rider'' \<and> rider r = user_id req_user))"
  using assms
  by (auto simp: rateRide_def Let_def dest: User_findById_id
           split: if_splits option.splits)

lemma rateRide_driver_overwrites:
  assumes "Ride_findById d rideId = Some r" "status r = completed" "1 \<le> stars" "stars \<le> 5"
      and "driver r = Some (user_id req_user)" "User_findById d (user_id req_user) = Some u"
  shows "Ride_findById (fst (rateRide d now req_user rideId (Some stars) commentOpt ''driver'')) rideId =
           Some (r\<lparr>driverRating := Some \<lparr>rating_value = stars,
                                         rating_comment = or_default commentOpt [],
                                         rating_createdAt = now\<rparr>\<rparr>)"
  using assms Ride_findById_id [OF assms(1)] User_findById_id [OF assms(6)]
  by (auto simp: rateRide_def Let_def Ride_findById_save split: option.splits)

lemma rateRide_rider_overwrites:
  assumes "Ride_findById d rideId = Some r" "status r = completed" "1 \<le> stars" "stars \<le> 5"
      and "rider r = user_id req_user" "User_findById d (user_id req_user) = Some u"
  shows "Ride_findById (fst (rateRide d now req_user rideId (Some stars) commentOpt ''rider'')) rideId =
           Some (r\<lparr>riderRating := Some \<lparr>rating_value = stars,
                                        rating_comment = or_default commentOpt [],
                                        rating_createdAt = now\<rparr>\<rparr>)"
  using assms Ride_findById_id [OF assms(1)] User_findById_id [OF assms(6)]
  by (auto simp: rateRide_def Let_def Ride_findById_save split: option.splits)

text \<open>
  C7, as the code has it.  A rating is stored (and the answer is 200) only for a completed
  ride, a rating between 1 and 5, and a caller who is the assigned driver (for
  \<open>ratedBy = driver\<close>, stored in \<open>driverRating\<close>) or the rider (for \<open>ratedBy = rider\<close>,
  stored in \<open>riderRating\<close>).  The handler does not look at the sub-record it writes: a
  submission by the matching rater stores the new rating whatever was stored before.
\<close>

theorem rating_guards_and_overwrite:
  "(rateRide d now req_user rideId ratingOpt commentOpt ratedBy = (d', resp)
      \<and> (d' \<noteq> d \<or> fst resp = 200) \<longrightarrow>
      (\<exists>r0 s0. Ride_findById d rideId = Some r0 \<and> status r0 = completed
           \<and> ratingOpt = Some s0 \<and> 1 \<le> s0 \<and> s0 \<le> 5
           \<and> ((ratedBy = ''driver'' \<and> driver r0 = Some (user_id req_user))
               \<or> (ratedBy = ''rider'' \<and> rider r0 = user_id req_user))))
   \<and> (Ride_findById d rideId = Some r \<and> status r = completed \<and> 1 \<le> stars \<and> stars \<le> 5
        \<and> driver r = Some (user_id req_user) \<and> User_findById d (user_id req_user) = Some u \<longrightarrow>
        Ride_findById (fst (rateRide d now req_user rideId (Some stars) commentOpt ''driver'')) rideId =
           Some (r\<lparr>driverRating := Some \<lparr>rating_value = stars,
                                         rating_comment = or_default commentOpt [],
                                         rating_createdAt = now\<rparr>\<rparr>))
   \<and> (Ride_findById d rideId = Some r \<and> status r = completed \<and> 1 \<le> stars \<and> stars \<le> 5
        \<and> rider r = user_id req_user \<and> User_findById d (user_id req_user) = Some u \<longrightarrow>
        Ride_findById (fst (rateRide d now req_user rideId (Some stars) commentOpt ''rider'')) rideId =
           Some (r\<lparr>riderRating := Some \<lparr>rating_value = stars,
                                        rating_comment = or_default commentOpt [],
                                        rating_createdAt = now\<rparr>\<rparr>))"
  using rateRide_changes [of d now req_user rideId ratingOpt commentOpt ratedBy d' resp]
        rateRide_driver_overwrites [of d rideId r stars req_user u now commentOpt]
        rateRide_rider_overwrites [of d rideId r stars req_user u now commentOpt]
  by blast

lemmas ex_defs = db1_def db2_def db3_def ride1_def ride2_def ride3_def alice_def bob_def carol_def
  bob_busy_def

lemmas store_defs = Ride_findById_def User_findById_def Wallet_findOne_def Ride_save_def
  User_save_def Wallet_save_def

theorem rating_guards_and_overwrite_witness:
  "rateRide db3 2000 alice ''ride3'' (Some 4) None ''rider'' =
     (\<lparr>rides = [ride3\<lparr>riderRating := Some \<lparr>rating_value = 4, rating_comment = [],
                                             rating_createdAt = 2000\<rparr>\<rparr>],
       users = [alice, bob, carol], wallets = []\<rparr>,
      (200, ''Rating submitted successfully''))
   \<and> status ride3 = completed \<and> rider ride3 = user_id alice"
proof -
  have f: "Ride_findById db3 ''ride3'' = Some ride3"
    by (simp add: ex_defs store_defs)
  have u: "User_findById db3 (user_id alice) = Some alice"
    by (simp add: ex_defs store_defs)
  have e: "rateRide db3 2000 alice ''ride3'' (Some 4) None ''rider'' =
     (\<lparr>rides = [ride3\<lparr>riderRating := Some \<lparr>rating_value = 4, rating_comment = [],
                                             rating_createdAt = 2000\<rparr>\<rparr>],
       users = [alice, bob, carol], wallets = []\<rparr>,
      (200, ''Rating submitted successfully''))"
    by (simp add: rateRide_def ex_defs store_defs or_default_def Let_def)
  show ?thesis
    using rating_guards_and_overwrite [of db3 2000 alice "''ride3''" "Some 4" None "''rider''"
            "fst (rateRide db3 2000 alice ''ride3'' (Some 4) None ''rider'')"
            "(200, ''Rating submitted successfully'')" ride3 4 alice]
          f u e
    by (simp add: ride3_def ride1_def alice_def)
qed

text \<open>
  The claim as the specification states it fails on a second submission by the same role:
  the driver's stored rating of 5 is replaced by the new rating of 1.
\<close>

theorem second_rating_overwrites:
  "map_option driverRating (Ride_findById db3 ''ride3'') =
     Some (Some \<lparr>rating_value = 5, rating_comment = ''great'', rating_createdAt = 950\<rparr>)
   \<and> snd (rateRide db3 2000 bob ''ride3'' (Some 1) (Some ''late'') ''driver'') =
       (200, ''Rating submitted successfully'')
   \<and> map_option driverRating
        (Ride_findById (fst (rateRide db3 2000 bob ''ride3'' (Some 1) (Some ''late'') ''driver'')) ''ride3'') =
     Some (Some \<lparr>rating_value = 1, rating_comment = ''late'', rating_createdAt = 2000\<rparr>)"
  by (simp add: rateRide_def ex_defs store_defs or_default_def Let_def)

section \<open>The great-circle distance (C9)\<close>

text \<open>Bounds on sine, cosine and pi that the numeric example needs.\<close>

lemma sin_poly_bounds:
  fixes x :: real
  assumes "0 \<le> x"
  shows "x - x^3/6 - x^5/120 \<le> sin x" and "sin x \<le> x - x^3/6 + x^5/120"
proof -
  have e: "\<And>f :: nat \<Rightarrow> real. (\<Sum>m<5. f m) = f 0 + f 1 + f 2 + f 3 + f 4"
    by (simp add: numeral_eq_Suc)
  have c: "sin_coeff 0 = 0" "sin_coeff 1 = 1" "sin_coeff 2 = 0" "sin_coeff 3 = - 1/6" "sin_coeff 4 = 0"
    by (simp_all add: sin_coeff_def fact_numeral)
  have s: "(\<Sum>m<5. sin_coeff m * x ^ m) = x - x^3/6"
    unfolding e c by simp
  have f: "inverse (fact 5) * \<bar>x\<bar> ^ 5 = x^5/120"
    using assms by (simp add: fact_numeral)
  have "\<bar>sin x - (x - x^3/6)\<bar> \<le> x^5/120"
    using Maclaurin_sin_bound [of x 5] unfolding s f .
  then show "x - x^3/6 - x^5/120 \<le> sin x" and "sin x \<le> x - x^3/6 + x^5/120"
    by linarith+
qed

lemma cubic_mono:
  fixes u v :: real
  assumes "0 \<le> u" "u \<le> v" "v \<le> 1"
  shows "u - u^3/6 \<le> v - v^3/6"
proof -
  have id: "(v - v^3/6) - (u - u^3/6) = (v - u) * (1 - (v^2 + u*v + u^2)/6)"
    by (simp add: power3_eq_cube power2_eq_square field_simps)
  have "v^2 \<le> 1" "u^2 \<le> 1" "u * v \<le> 1"
    using assms by (simp_all add: power_le_one mult_le_one)
  then have "0 \<le> 1 - (v^2 + u*v + u^2)/6" by simp
  then have "0 \<le> (v - u) * (1 - (v^2 + u*v + u^2)/6)"
    using assms by simp
  then show ?thesis using id by linarith
qed

lemma sin_poly_lower7:
  fixes x :: real
  assumes "0 \<le> x"
  shows "x - x^3/6 + x^5/120 - x^7/5040 \<le> sin x"
proof -
  have e: "\<And>f :: nat \<Rightarrow> real. (\<Sum>m<7. f m) = f 0 + f 1 + f 2 + f 3 + f 4 + f 5 + f 6"
    by (simp add: numeral_eq_Suc)
  have c: "sin_coeff 0 = 0" "sin_coeff 1 = 1" "sin_coeff 2 = 0" "sin_coeff 3 = - 1/6"
          "sin_coeff 4 = 0" "sin_coeff 5 = 1/120" "sin_coeff 6 = 0"
    by (simp_all add: sin_coeff_def fact_numeral)
  have s: "(\<Sum>m<7. sin_coeff m * x ^ m) = x - x^3/6 + x^5/120"
    unfolding e c by simp
  have f: "inverse (fact 7) * \<bar>x\<bar> ^ 7 = x^7/5040"
    using assms by (simp add: fact_numeral)
  have "\<bar>sin x - (x - x^3/6 + x^5/120)\<bar> \<le> x^7/5040"
    using Maclaurin_sin_bound [of x 7] unfolding s f .
  then show ?thesis by linarith
qed

lemma pi_upper_crude: "pi < 3.161"
proof (rule ccontr)
  assume "\<not> pi < 3.161"
  then have ge: "3161/6000 \<le> pi / 6" by simp
  have le: "pi / 6 \<le> 2/3" using pi_less_4 by simp
  have nn: "0 \<le> pi / 6" by simp
  have b: "(pi/6)^5 \<le> (2/3)^5"
    by (rule power_mono) (use nn le in simp_all)
  have a: "3161/6000 - (3161/6000)^3/6 \<le> pi/6 - (pi/6)^3/6"
    by (rule cubic_mono) (use ge le in simp_all)
  have "(1/2::real) < (3161/6000 - (3161/6000)^3/6) - (2/3)^5/120"
    by (simp add: power_divide)
  also have "\<dots> \<le> pi/6 - (pi/6)^3/6 - (pi/6)^5/120"
    using a b by linarith
  also have "\<dots> \<le> sin (pi/6)"
    using sin_poly_bounds(1) [OF nn] .
  finally show False by (simp add: sin_30)
qed

lemma pi_lower: "3.14157 < pi"
proof (rule ccontr)
  assume "\<not> 3.14157 < pi"
  then have le: "pi / 6 \<le> 314157/600000" by simp
  have ge: "0 \<le> pi / 6" by simp
  have "1/2 = sin (pi/6)" by (simp add: sin_30)
  also have "\<dots> \<le> pi/6 - (pi/6)^3/6 + (pi/6)^5/120"
    using sin_poly_bounds(2) [OF ge] .
  also have "\<dots> \<le> (314157/600000 - (314157/600000)^3/6) + (314157/600000)^5/120"
  proof -
    have a: "pi/6 - (pi/6)^3/6 \<le> 314157/600000 - (314157/600000)^3/6"
      by (rule cubic_mono) (use ge le in simp_all)
    have b: "(pi/6)^5 \<le> (314157/600000)^5"
      by (rule power_mono) (use ge le in simp_all)
    show ?thesis using a b by linarith
  qed
  also have "\<dots> < 1/2" by (simp add: power_divide)
  finally show False by simp
qed

lemma pi_upper: "pi < 3.1416"
proof (rule ccontr)
  assume "\<not> pi < 3.1416"
  then have ge: "5236/10000 \<le> pi / 6" by simp
  have le: "pi / 6 \<le> 3161/6000" using pi_upper_crude by simp
  have nn: "0 \<le> pi / 6" by simp
  have a: "5236/10000 - (5236/10000)^3/6 \<le> pi/6 - (pi/6)^3/6"
    by (rule cubic_mono) (use ge le in simp_all)
  have b: "(5236/10000)^5 \<le> (pi/6)^5"
    by (rule power_mono) (use ge in simp_all)
  have c: "(pi/6)^7 \<le> (3161/6000)^7"
    by (rule power_mono) (use nn le in simp_all)
  have "(1/2::real) < (5236/10000 - (5236/10000)^3/6) + (5236/10000)^5/120 - (3161/6000)^7/5040"
    by (simp add: power_divide)
  also have "\<dots> \<le> pi/6 - (pi/6)^3/6 + (pi/6)^5/120 - (pi/6)^7/5040"
    using a b c by linarith
  also have "\<dots> \<le> sin (pi/6)"
    using sin_poly_lower7 [OF nn] .
  finally show False by (simp add: sin_30)
qed

lemma cos_lower: "1 - x\<^sup>2 / 2 \<le> cos (x::real)"
proof -
  have "\<bar>sin (x/2)\<bar> \<le> \<bar>x/2\<bar>" by (rule abs_sin_x_le_abs_x)
  then have "(sin (x/2))\<^sup>2 \<le> (x/2)\<^sup>2" by (simp only: abs_le_square_iff)
  moreover have "cos x = 1 - 2 * (sin (x/2))\<^sup>2"
    using cos_double_sin [of "x/2"] by simp
  ultimately show ?thesis by (simp add: power_divide)
qed

lemma arcsin_small:
  fixes s :: real
  assumes "0 \<le> s" "s \<le> 1"
  shows "s \<le> arcsin s"
proof -
  have "0 \<le> arcsin s" using assms by (simp add: arcsin_nonneg)
  then have "sin (arcsin s) \<le> arcsin s" by (rule sin_x_le_x)
  then show ?thesis using assms by simp
qed

lemma atan2_arcsin:
  assumes "0 \<le> a" "a < 1"
  shows "atan2 (sqrt a) (sqrt (1 - a)) = arcsin (sqrt a)"
proof -
  have p: "0 < sqrt (1 - a)" using assms by simp
  have "sqrt a < 1" using assms by (simp add: real_sqrt_less_iff [of a 1, simplified])
  moreover have "- 1 < sqrt a" using assms
    by (meson less_le_trans neg_less_0_iff_less real_sqrt_ge_zero zero_less_one)
  ultimately have "arcsin (sqrt a) = arctan (sqrt a / sqrt (1 - (sqrt a)\<^sup>2))"
    using arcsin_arctan [of "sqrt a"] by simp
  then show ?thesis using p assms by (simp add: atan2_def)
qed

lemma sin_lower_numeric:
  fixes x lo hi :: real
  assumes "0 \<le> lo" "lo \<le> x" "x \<le> hi"
  shows "lo - hi^3/6 - hi^5/120 \<le> sin x"
proof -
  have x0: "0 \<le> x" using assms by simp
  have "x^3 \<le> hi^3" "x^5 \<le> hi^5"
    using assms x0 by (simp_all add: power_mono)
  then have "lo - hi^3/6 - hi^5/120 \<le> x - x^3/6 - x^5/120"
    using assms by linarith
  then show ?thesis using sin_poly_bounds(1) [OF x0] by linarith
qed

lemma haversine_a_yaounde:
  "haversine_a yaounde1 yaounde2 =
     (sin (pi / 36000))\<^sup>2 * (1 + cos (3.848 * pi / 180) * cos (3.858 * pi / 180))"
  by (simp add: haversine_a_def yaounde1_def yaounde2_def Let_def power2_eq_square algebra_simps)


lemma cos_upper:
  fixes x s :: real
  assumes "0 \<le> s" "s \<le> sin (x / 2)"
  shows "cos x \<le> 1 - 2 * s\<^sup>2"
proof -
  have "s\<^sup>2 \<le> (sin (x / 2))\<^sup>2" using assms by (rule power_mono [rotated])
  moreover have "cos x = 1 - 2 * (sin (x / 2))\<^sup>2"
    using cos_double_sin [of "x / 2"] by simp
  ultimately show ?thesis by linarith
qed

text \<open>The cosine of a small angle, from bounds on the angle and on its half.\<close>

lemma cos_lower_bound:
  fixes phi pU :: real
  assumes "0 \<le> phi" "phi \<le> pU"
  shows "1 - pU\<^sup>2 / 2 \<le> cos phi"
proof -
  have "phi\<^sup>2 \<le> pU\<^sup>2" using assms by (simp add: power_mono)
  then show ?thesis using cos_lower [of phi] by linarith
qed

lemma cos_upper_bound:
  fixes phi uL uU sL :: real
  assumes "0 \<le> uL" "uL \<le> phi / 2" "phi / 2 \<le> uU"
      and "0 \<le> sL" "sL \<le> uL - uU^3/6 - uU^5/120"
  shows "cos phi \<le> 1 - 2 * sL\<^sup>2"
proof -
  have "uL - uU^3/6 - uU^5/120 \<le> sin (phi / 2)"
    by (rule sin_lower_numeric) (use assms in simp_all)
  then have "sL \<le> sin (phi / 2)" using assms(5) by linarith
  then show ?thesis using assms(4) by (rule cos_upper [rotated])
qed

lemma distance_yaounde_bounds:
  "\<exists>d. calculateDistance yaounde1 yaounde2 = Some d \<and> 1.5707 \<le> d \<and> d \<le> 1.5708"
proof -
  define x where "x = pi / 36000"
  define c1 where "c1 = cos (3.848 * pi / 180)"
  define c2 where "c2 = cos (3.858 * pi / 180)"
  define a where "a = (sin x)\<^sup>2 * (1 + c1 * c2)"
  have ha: "haversine_a yaounde1 yaounde2 = a"
    by (simp add: haversine_a_yaounde a_def x_def c1_def c2_def)
  have xlo: "314157/3600000000 \<le> x" using pi_lower by (simp add: x_def)
  have xhi: "x \<le> 31416/360000000" using pi_upper by (simp add: x_def)
  have x0: "0 \<le> x" by (simp add: x_def)
  have "(314157/3600000000::real) - (31416/360000000)^3/6 - (31416/360000000)^5/120 \<le> sin x"
    by (rule sin_lower_numeric) (use xlo xhi in simp_all)
  moreover have "(8726583322/10^14::real) \<le> 314157/3600000000 - (31416/360000000)^3/6 - (31416/360000000)^5/120"
    by (simp add: power_divide)
  ultimately have slo: "8726583322/10^14 \<le> sin x" by linarith
  have "(31416/360000000::real) \<le> 8726666667/10^14" by simp
  then have shi: "sin x \<le> 8726666667/10^14" using sin_x_le_x [OF x0] xhi by linarith
  have s0: "0 \<le> sin x" using slo by simp
  have c1lo': "1 - (671604267/10^10)\<^sup>2 / 2 \<le> c1"
    unfolding c1_def by (rule cos_lower_bound) (use pi_upper in simp_all)
  have c1hi': "c1 \<le> 1 - 2 * (335735812/10^10)\<^sup>2"
    unfolding c1_def
    by (rule cos_upper_bound [where uL = "335798926/10^10" and uU = "335802134/10^10"])
       (use pi_lower pi_upper in \<open>simp_all add: power_divide\<close>)
  have c2lo': "1 - (673349600/10^10)\<^sup>2 / 2 \<le> c2"
    unfolding c2_def by (rule cos_lower_bound) (use pi_upper in simp_all)
  have c2hi': "c2 \<le> 1 - 2 * (336607977/10^10)\<^sup>2"
    unfolding c2_def
    by (rule cos_upper_bound [where uL = "336671585/10^10" and uU = "336674800/10^10"])
       (use pi_lower pi_upper in \<open>simp_all add: power_divide\<close>)
  have c1lo: "9977447385/10^10 \<le> c1" using c1lo' by (simp add: power_divide)
  have c1hi: "c1 \<le> 9977456293/10^10" using c1hi' by (simp add: power_divide)
  have c2lo: "9977330015/10^10 \<le> c2" using c2lo' by (simp add: power_divide)
  have c2hi: "c2 \<le> 9977339014/10^10" using c2hi' by (simp add: power_divide)
  have "9977447385/10^10 * (9977330015/10^10) \<le> c1 * c2"
    by (rule mult_mono) (use c1lo c2lo in simp_all)
  then have clo: "19954828526/10^10 \<le> 1 + c1 * c2" by simp
  have c10: "0 \<le> c1" using c1lo by simp
  have c20: "0 \<le> c2" using c2lo by simp
  have "c1 * c2 \<le> 9977456293/10^10 * (9977339014/10^10)"
    by (rule mult_mono) (use c1hi c2hi c10 c20 in simp_all)
  then have chi: "1 + c1 * c2 \<le> 19954846394/10^10" by simp
  have sq_lo: "(8726583322/10^14)\<^sup>2 \<le> (sin x)\<^sup>2"
    by (rule power_mono) (use slo in simp_all)
  have sq_hi: "(sin x)\<^sup>2 \<le> (8726666667/10^14)\<^sup>2"
    by (rule power_mono) (use shi s0 in simp_all)
  have "(8726583322/10^14)\<^sup>2 * (19954828526/10^10) \<le> a"
    unfolding a_def by (rule mult_mono) (use sq_lo clo in simp_all)
  moreover have "(12327307794/10^14)\<^sup>2 \<le> ((8726583322/10^14)\<^sup>2 * (19954828526/10^10) :: real)"
    by (simp add: power_divide)
  ultimately have aL: "(12327307794/10^14)\<^sup>2 \<le> a" by linarith
  have "a \<le> (8726666667/10^14)\<^sup>2 * (19954846394/10^10)"
    unfolding a_def by (rule mult_mono) (use sq_hi chi clo in simp_all)
  moreover have "((8726666667/10^14)\<^sup>2 * (19954846394/10^10) :: real) \<le> (12327431049/10^14)\<^sup>2"
    by (simp add: power_divide)
  ultimately have aU: "a \<le> (12327431049/10^14)\<^sup>2" by linarith
  have a0: "0 \<le> a" using aL by (meson order_trans zero_le_power2)
  have a1: "a < 1"
  proof -
    have "((12327431049/10^14)\<^sup>2 :: real) < 1" by (simp add: power_divide)
    then show ?thesis using aU by linarith
  qed
  have rL: "12327307794/10^14 \<le> sqrt a" using aL by (rule real_le_rsqrt)
  have rU: "sqrt a \<le> 12327431049/10^14" by (rule real_le_lsqrt) (use aU in simp_all)
  have r1: "sqrt a \<le> 1" using a1 by simp
  have r0: "0 \<le> sqrt a" using a0 by simp
  have asL: "12327307794/10^14 \<le> arcsin (sqrt a)"
    using arcsin_small [OF r0 r1] rL by linarith
  have "(12327431149/10^14::real) - (12327431149/10^14)^3/6 - (12327431149/10^14)^5/120 \<le> sin (12327431149/10^14)"
    by (rule sin_lower_numeric) simp_all
  moreover have "(12327431049/10^14::real) \<le> 12327431149/10^14 - (12327431149/10^14)^3/6 - (12327431149/10^14)^5/120"
    by (simp add: power_divide)
  ultimately have su: "sqrt a \<le> sin (12327431149/10^14)" using rU by linarith
  have m1: "- 1 \<le> sqrt a" using r0 by linarith
  have "arcsin (sqrt a) \<le> arcsin (sin (12327431149/10^14))"
    using arcsin_le_arcsin [OF m1 su] by simp
  moreover have "arcsin (sin (12327431149/10^14)) = 12327431149/10^14"
    by (rule arcsin_sin) (use pi_ge_two in simp_all)
  ultimately have asU: "arcsin (sqrt a) \<le> 12327431149/10^14" by simp
  have len: "length yaounde1 = 2" "length yaounde2 = 2"
    by (simp_all add: yaounde1_def yaounde2_def)
  have "calculateDistance yaounde1 yaounde2 = Some (6371 * (2 * arcsin (sqrt a)))"
    using a0 a1 by (simp add: calculateDistance_def ha len Let_def atan2_arcsin)
  moreover have "1.5707 \<le> 6371 * (2 * arcsin (sqrt a))" using asL by simp
  moreover have "6371 * (2 * arcsin (sqrt a)) \<le> 1.5708" using asU by simp
  ultimately show ?thesis by blast
qed







section \<open>Which operations remove ride documents (C6)\<close>

lemma filter_none_left: "filter P xs = [] \<Longrightarrow> filter (\<lambda>x. \<not> P x) xs = xs"
  by (induction xs) (auto split: if_splits)

lemma requestRide_create_rides:
  "\<exists>extra. rides (fst (requestRide_create d now newId uid body pa pc da dc km dur f)) = rides d @ extra
      \<and> (extra = [] \<or> (\<exists>r. extra = [r] \<and> ride_id r = newId \<and> rider r = uid \<and> status r = pending
                           \<and> requestedAt r = now))"
  by (simp add: requestRide_create_def Let_def)

lemma rides_cleanup:
  "rides (requestRide_cleanup d uid now) = filter (\<lambda>r. \<not> old_pending uid now r) (rides d)"
  by (simp add: requestRide_cleanup_def Let_def filter_none_left)

lemma requestRide_rides:
  "\<exists>extra. rides (fst (requestRide d now newId req_user body)) =
       (if req_pickup body \<noteq> None \<and> req_destination body \<noteq> None
        then filter (\<lambda>r. \<not> old_pending (user_id req_user) now r) (rides d)
        else rides d) @ extra
      \<and> (extra = [] \<or> (\<exists>r. extra = [r] \<and> ride_id r = newId \<and> rider r = user_id req_user
                           \<and> status r = pending \<and> requestedAt r = now))"
proof (cases "req_pickup body")
  case None
  then show ?thesis by (simp add: requestRide_def)
next
  case (Some pickup)
  note p = this
  show ?thesis
  proof (cases "req_destination body")
    case None
    then show ?thesis using p by (simp add: requestRide_def)
  next
    case (Some destination)
    define d1 where "d1 = requestRide_cleanup d (user_id req_user) now"
    have r1: "rides d1 = filter (\<lambda>r. \<not> old_pending (user_id req_user) now r) (rides d)"
      by (simp add: d1_def rides_cleanup)
    have "\<exists>extra. rides (fst (requestRide d now newId req_user body)) = rides d1 @ extra
      \<and> (extra = [] \<or> (\<exists>r. extra = [r] \<and> ride_id r = newId \<and> rider r = user_id req_user
                           \<and> status r = pending \<and> requestedAt r = now))"
      using p Some requestRide_create_rides [of d1 now newId "user_id req_user" body]
      by (auto simp: requestRide_def Let_def d1_def [symmetric]
               split: option.splits sum.splits prod.splits)
    then show ?thesis using p Some r1 by simp
  qed
qed


lemma transferFunds_rides:
  "rides (fst (transferFunds faulty d now a b amount rideId)) = rides d"
  using transferFunds_frame [of faulty d now a b amount rideId] by (cases "transferFunds faulty d now a b amount rideId") simp

lemma ride_ids_kept:
  "map ride_id (rides (fst (acceptRide d now req_user rideId))) = map ride_id (rides d)"
  "map ride_id (rides (fst (startRide d now req_user rideId))) = map ride_id (rides d)"
  "map ride_id (rides (fst (cancelRide d now req_user rideId reason))) = map ride_id (rides d)"
  "map ride_id (rides (fst (rateRide d now req_user rideId ratingOpt commentOpt ratedBy))) = map ride_id (rides d)"
  by (auto simp: acceptRide_def startRide_def cancelRide_def rateRide_def Let_def ride_ids_save
           split: option.splits)

lemma ride_ids_kept_complete:
  "map ride_id (rides (fst (completeRide faulty d now req_user rideId))) = map ride_id (rides d)"
proof -
  have t: "map ride_id (rides d') = map ride_id (rides d0)"
    if "transferFunds faulty d0 now a b amount rid = (d', res)" for d0 d' a b amount rid res
    using transferFunds_frame [OF that] by simp
  show ?thesis
    by (auto simp: completeRide_def Let_def ride_ids_save t
             split: option.splits prod.splits sum.splits)
qed

text \<open>
  C6, as the code has it.  \<open>requestRide\<close>, once the body has a pickup and a
  destination, deletes exactly the caller's rides that are still pending and were
  requested more than five minutes before (whatever the request answers afterwards), keeps
  every other ride in place, and appends at most the ride it creates.  \<open>acceptRide\<close>,
  \<open>startRide\<close>, \<open>completeRide\<close>, \<open>cancelRide\<close> and \<open>rateRide\<close> delete nothing: the
  rides of the store keep their ids and their order.
\<close>

theorem rides_removed_only_by_cleanup:
  "(\<exists>extra. rides (fst (requestRide d now newId req_user body)) =
       (if req_pickup body \<noteq> None \<and> req_destination body \<noteq> None
        then filter (\<lambda>r. \<not> old_pending (user_id req_user) now r) (rides d)
        else rides d) @ extra
      \<and> (extra = [] \<or> (\<exists>r. extra = [r] \<and> ride_id r = newId \<and> rider r = user_id req_user
                           \<and> status r = pending \<and> requestedAt r = now)))
   \<and> map ride_id (rides (fst (acceptRide d now req_user rideId))) = map ride_id (rides d)
   \<and> map ride_id (rides (fst (startRide d now req_user rideId))) = map ride_id (rides d)
   \<and> map ride_id (rides (fst (completeRide faulty d now req_user rideId))) = map ride_id (rides d)
   \<and> map ride_id (rides (fst (cancelRide d now req_user rideId reason))) = map ride_id (rides d)
   \<and> map ride_id (rides (fst (rateRide d now req_user rideId ratingOpt commentOpt ratedBy))) =
       map ride_id (rides d)"
  using requestRide_rides [of d now newId req_user body]
  by (simp add: ride_ids_kept ride_ids_kept_complete)

lemma requestRide_body1:
  "\<exists>km. 0 < km \<and> requestRide db1 600000 ''ride9'' alice body1 =
     (\<lparr>rides = [\<lparr>ride_id = ''ride9'', rider = ''alice'', driver = None, status = pending,
                 pickup_address = ''Bastos'', pickup_coordinates = yaounde1,
                 destination_address = ''Mvan'', destination_coordinates = yaounde2,
                 distance = km, duration = of_int \<lceil>fl (km * 3)\<rceil>,
                 ride_fare = \<lparr>fare_base = 500, fare_distance = fl (km * 200),
                              fare_time = fl (of_int \<lceil>fl (km * 3)\<rceil> * 10),
                              fare_total = fl (fl (500 + fl (km * 200))
                                               + fl (of_int \<lceil>fl (km * 3)\<rceil> * 10)),
                              fare_currency = ''XAF''\<rparr>,
                 payment_method = ''cash'', payment_status = pay_pending,
                 driverRating = None, riderRating = None,
                 requestedAt = 600000, acceptedAt = None, startedAt = None, completedAt = None,
                 cancelledAt = None, cancelledBy = None, cancellationReason = None,
                 vehicleType = ''standard''\<rparr>],
       users = [alice, bob, carol], wallets = []\<rparr>,
      (201, ''Ride requested successfully''))"
proof -
  obtain km where k: "calculateDistance yaounde1 yaounde2 = Some km" "1.5707 \<le> km"
    using distance_yaounde_bounds by blast
  have pos: "0 < km" using k(2) by simp
  have len: "length yaounde1 = 2" "length yaounde2 = 2"
    by (simp_all add: yaounde1_def yaounde2_def)
  have ua: "user_id alice = ''alice''" by (simp add: alice_def)
  have c: "requestRide_cleanup db1 ''alice'' 600000 =
             \<lparr>rides = [], users = [alice, bob, carol], wallets = []\<rparr>"
    by (simp add: requestRide_cleanup_def old_pending_def db1_def ride1_def)
  have "requestRide db1 600000 ''ride9'' alice body1 =
     (\<lparr>rides = [\<lparr>ride_id = ''ride9'', rider = ''alice'', driver = None, status = pending,
                 pickup_address = ''Bastos'', pickup_coordinates = yaounde1,
                 destination_address = ''Mvan'', destination_coordinates = yaounde2,
                 distance = km, duration = of_int \<lceil>fl (km * 3)\<rceil>,
                 ride_fare = \<lparr>fare_base = 500, fare_distance = fl (km * 200),
                              fare_time = fl (of_int \<lceil>fl (km * 3)\<rceil> * 10),
                              fare_total = fl (fl (500 + fl (km * 200))
                                               + fl (of_int \<lceil>fl (km * 3)\<rceil> * 10)),
                              fare_currency = ''XAF''\<rparr>,
                 payment_method = ''cash'', payment_status = pay_pending,
                 driverRating = None, riderRating = None,
                 requestedAt = 600000, acceptedAt = None, startedAt = None, completedAt = None,
                 cancelledAt = None, cancelledBy = None, cancellationReason = None,
                 vehicleType = ''standard''\<rparr>],
       users = [alice, bob, carol], wallets = []\<rparr>,
      (201, ''Ride requested successfully''))"
    using pos
    by (simp add: requestRide_def body1_def ua c requestRide_pickupData_def
                  requestRide_distance_def len k(1) requestRide_fare_pos requestRide_create_def
                  or_default_def Let_def)
  then show ?thesis using pos by blast
qed

text \<open>
  The claim as the specification states it fails: a successful request by a rider removes
  that rider's ride that has been pending for ten minutes.
\<close>

theorem requestRide_deletes_stale_pending:
  "Ride_findById db1 ''ride1'' = Some ride1 \<and> rider ride1 = user_id alice
   \<and> snd (requestRide db1 600000 ''ride9'' alice body1) = (201, ''Ride requested successfully'')
   \<and> Ride_findById (fst (requestRide db1 600000 ''ride9'' alice body1)) ''ride1'' = None"
proof -
  obtain km where "requestRide db1 600000 ''ride9'' alice body1 =
     (\<lparr>rides = [\<lparr>ride_id = ''ride9'', rider = ''alice'', driver = None, status = pending,
                 pickup_address = ''Bastos'', pickup_coordinates = yaounde1,
                 destination_address = ''Mvan'', destination_coordinates = yaounde2,
                 distance = km, duration = of_int \<lceil>fl (km * 3)\<rceil>,
                 ride_fare = \<lparr>fare_base = 500, fare_distance = fl (km * 200),
                              fare_time = fl (of_int \<lceil>fl (km * 3)\<rceil> * 10),
                              fare_total = fl (fl (500 + fl (km * 200))
                                               + fl (of_int \<lceil>fl (km * 3)\<rceil> * 10)),
                              fare_currency = ''XAF''\<rparr>,
                 payment_method = ''cash'', payment_status = pay_pending,
                 driverRating = None, riderRating = None,
                 requestedAt = 600000, acceptedAt = None, startedAt = None, completedAt = None,
                 cancelledAt = None, cancelledBy = None, cancellationReason = None,
                 vehicleType = ''standard''\<rparr>],
       users = [alice, bob, carol], wallets = []\<rparr>,
      (201, ''Ride requested successfully''))"
    using requestRide_body1 by blast
  then show ?thesis
    by (simp add: Ride_findById_def db1_def ride1_def alice_def)
qed


section \<open>Accepting a ride (C1)\<close>

lemma acceptRide_not_pending:
  assumes "Ride_findById d rideId = Some r" "status r \<noteq> pending"
  shows "acceptRide d now req_user rideId = (d, (400, ''Ride is not available for acceptance''))"
  using assms by (simp add: acceptRide_def)

lemma acceptRide_success:
  assumes "Ride_findById d rideId = Some r" "status r = pending"
      and "User_findById d (user_id req_user) = Some u" "isAvailable u"
  shows "\<exists>d'. acceptRide d now req_user rideId = (d', (200, ''Ride accepted successfully''))
           \<and> Ride_findById d' rideId =
               Some (r\<lparr>driver := Some (user_id req_user), status := accepted, acceptedAt := Some now\<rparr>)"
  using assms Ride_findById_id [OF assms(1)]
  by (simp add: acceptRide_def Ride_findById_save updateStatus_def)

lemma acceptRide_failure_keeps_store:
  assumes "acceptRide d now req_user rideId = (d', resp)" "fst resp \<noteq> 200"
  shows "d' = d"
  using assms by (auto simp: acceptRide_def split: option.splits if_splits)

lemma accept_all_not_pending:
  assumes "Ride_findById d rideId = Some r" "status r \<noteq> pending"
  shows "accept_all d rideId cs = (d, map (\<lambda>_. (400, ''Ride is not available for acceptance'')) cs)"
  using assms by (induction cs) (simp_all add: acceptRide_not_pending)

lemma accept_all_at_most_one:
  "length (filter (\<lambda>resp. fst resp = 200) (snd (accept_all d rideId cs))) \<le> 1"
proof (induction cs arbitrary: d)
  case Nil
  then show ?case by simp
next
  case (Cons c cs)
  obtain d1 resp where a: "acceptRide d (fst c) (snd c) rideId = (d1, resp)"
    by (cases "acceptRide d (fst c) (snd c) rideId") auto
  show ?case
  proof (cases "fst resp = 200")
    case True
    then obtain msg where m: "acceptRide d (fst c) (snd c) rideId = (d1, (200, msg))"
      using a by (cases resp) auto
    obtain r where r: "Ride_findById d1 rideId = Some r" "status r = accepted"
      using acceptRide_ok [OF m] by auto
    have "status r \<noteq> pending" using r(2) by simp
    then have "accept_all d1 rideId cs = (d1, map (\<lambda>_. (400, ''Ride is not available for acceptance'')) cs)"
      using r(1) by (rule accept_all_not_pending [rotated])
    then show ?thesis using a True by (simp add: filter_map comp_def)
  next
    case False
    then have "d1 = d" using a by (rule acceptRide_failure_keeps_store [rotated])
    then show ?thesis
      using a False Cons.IH [of d]
      by (cases "accept_all d rideId cs") simp
  qed
qed

text \<open>The four steps of the handler, run without interruption, are the handler.\<close>

lemma acceptRide_steps:
  "acceptRide_step now req_user rideId
     (acceptRide_step now req_user rideId
        (acceptRide_step now req_user rideId
           (acceptRide_step now req_user rideId (d, Accept_findRide)))) =
   (fst (acceptRide d now req_user rideId), Accept_done (snd (acceptRide d now req_user rideId)))"
  by (simp add: acceptRide_step_def acceptRide_def split: option.splits)

lemma acceptRide_saves_unconditionally:
  assumes "Ride_findById d rideId = Some r"
  shows "Ride_findById (fst (acceptRide_step now req_user rideId (d, Accept_saveRide))) rideId =
           Some (r\<lparr>driver := Some (user_id req_user), status := accepted, acceptedAt := Some now\<rparr>)"
  using assms Ride_findById_id [OF assms]
  by (simp add: acceptRide_step_def Ride_findById_save updateStatus_def)

text \<open>
  C1, as the code has it.  \<open>acceptRide\<close> reads the ride and answers 400
  \<open>Ride is not available for acceptance\<close>, changing nothing, unless the status it has read
  is pending.  Its later save of the ride carries no condition on the stored status: the
  save step makes the caller the driver of the stored ride and the ride accepted whatever
  the status of the stored ride is at that moment.  The handler is its four steps run
  without interruption.  When requests for the same ride run one after the other, a first
  request by an available driver on a pending ride succeeds, every later request is
  answered 400, and the ride keeps the first caller as its driver; in any such run at most
  one request succeeds.
\<close>

theorem accept_one_after_the_other:
  "(Ride_findById d rideId = Some r \<and> status r \<noteq> pending \<longrightarrow>
      acceptRide d now req_user rideId = (d, (400, ''Ride is not available for acceptance'')))
   \<and> (Ride_findById d rideId = Some r \<longrightarrow>
        Ride_findById (fst (acceptRide_step now req_user rideId (d, Accept_saveRide))) rideId =
          Some (r\<lparr>driver := Some (user_id req_user), status := accepted, acceptedAt := Some now\<rparr>))
   \<and> acceptRide_step now req_user rideId
        (acceptRide_step now req_user rideId
           (acceptRide_step now req_user rideId
              (acceptRide_step now req_user rideId (d, Accept_findRide)))) =
       (fst (acceptRide d now req_user rideId), Accept_done (snd (acceptRide d now req_user rideId)))
   \<and> (Ride_findById d rideId = Some r \<and> status r = pending
      \<and> User_findById d (user_id (snd c)) = Some u \<and> isAvailable u \<longrightarrow>
      (\<exists>d'. accept_all d rideId (c # cs) =
               (d', (200, ''Ride accepted successfully'')
                      # map (\<lambda>_. (400, ''Ride is not available for acceptance'')) cs)
            \<and> Ride_findById d' rideId =
                Some (r\<lparr>driver := Some (user_id (snd c)), status := accepted,
                        acceptedAt := Some (fst c)\<rparr>)))
   \<and> length (filter (\<lambda>resp. fst resp = 200) (snd (accept_all d rideId cs))) \<le> 1"
proof -
  have g: "acceptRide d now req_user rideId = (d, (400, ''Ride is not available for acceptance''))"
    if "Ride_findById d rideId = Some r" "status r \<noteq> pending"
    using that by (rule acceptRide_not_pending)
  have v: "Ride_findById (fst (acceptRide_step now req_user rideId (d, Accept_saveRide))) rideId =
          Some (r\<lparr>driver := Some (user_id req_user), status := accepted, acceptedAt := Some now\<rparr>)"
    if "Ride_findById d rideId = Some r"
    using that by (rule acceptRide_saves_unconditionally)
  have "\<exists>d'. accept_all d rideId (c # cs) =
               (d', (200, ''Ride accepted successfully'')
                      # map (\<lambda>_. (400, ''Ride is not available for acceptance'')) cs)
            \<and> Ride_findById d' rideId =
                Some (r\<lparr>driver := Some (user_id (snd c)), status := accepted,
                        acceptedAt := Some (fst c)\<rparr>)"
    if h: "Ride_findById d rideId = Some r" "status r = pending"
          "User_findById d (user_id (snd c)) = Some u" "isAvailable u"
  proof -
    obtain d1 where a: "acceptRide d (fst c) (snd c) rideId = (d1, (200, ''Ride accepted successfully''))"
      and f: "Ride_findById d1 rideId =
               Some (r\<lparr>driver := Some (user_id (snd c)), status := accepted, acceptedAt := Some (fst c)\<rparr>)"
      using acceptRide_success [OF h] by blast
    have "accept_all d1 rideId cs = (d1, map (\<lambda>_. (400, ''Ride is not available for acceptance'')) cs)"
      by (rule accept_all_not_pending [OF f]) simp
    then show ?thesis using a f by simp
  qed
  then show ?thesis
    using g v acceptRide_steps [of now req_user rideId d] accept_all_at_most_one [of d rideId cs]
    by blast
qed

theorem accept_one_after_the_other_witness:
  "accept_all db1 ''ride1'' [(1000, bob), (1001, carol)] =
     (\<lparr>rides = [ride1\<lparr>driver := Some ''bob'', status := accepted, acceptedAt := Some 1000\<rparr>],
       users = [alice, bob_busy, carol], wallets = []\<rparr>,
      [(200, ''Ride accepted successfully''), (400, ''Ride is not available for acceptance'')])
   \<and> acceptRide db3 1000 carol ''ride3'' = (db3, (400, ''Ride is not available for acceptance''))
   \<and> Ride_findById (fst (acceptRide_step 1000 carol ''ride3'' (db3, Accept_saveRide))) ''ride3'' =
        Some (ride3\<lparr>driver := Some ''carol'', status := accepted, acceptedAt := Some 1000\<rparr>)"
proof -
  have f: "Ride_findById db1 ''ride1'' = Some ride1" "status ride1 = pending"
          "User_findById db1 (user_id (snd (1000::int, bob))) = Some bob" "isAvailable bob"
    by (simp_all add: ex_defs store_defs)
  have g: "Ride_findById db3 ''ride3'' = Some ride3" "status ride3 \<noteq> pending"
          "user_id carol = ''carol''"
    by (simp_all add: ex_defs store_defs)
  have e: "accept_all db1 ''ride1'' [(1000, bob), (1001, carol)] =
     (\<lparr>rides = [ride1\<lparr>driver := Some ''bob'', status := accepted, acceptedAt := Some 1000\<rparr>],
       users = [alice, bob_busy, carol], wallets = []\<rparr>,
      [(200, ''Ride accepted successfully''), (400, ''Ride is not available for acceptance'')])"
    by (simp add: acceptRide_def ex_defs store_defs updateStatus_def)
  show ?thesis
    using accept_one_after_the_other [where d = db1 and rideId = "''ride1''" and r = ride1
            and c = "(1000, bob)" and u = bob and cs = "[(1001, carol)]"]
          accept_one_after_the_other [where d = db3 and rideId = "''ride3''" and r = ride3
            and now = 1000 and req_user = carol]
          f g e
    by simp
qed

text \<open>
  The claim as the specification states it fails for requests that overlap: when both
  requests read the pending ride before either saves it, both are answered 200, both
  drivers are marked unavailable, and the second save replaces the first driver.
\<close>

theorem concurrent_accepts_both_succeed:
  "accept_race (1000, bob) (1001, carol) ''ride1''
     [True, False, True, False, True, False, True, False]
     (db1, Accept_findRide, Accept_findRide) =
   (\<lparr>rides = [ride1\<lparr>driver := Some ''carol'', status := accepted, acceptedAt := Some 1001\<rparr>],
     users = [alice, bob_busy, carol\<lparr>isAvailable := False\<rparr>], wallets = []\<rparr>,
    Accept_done (200, ''Ride accepted successfully''),
    Accept_done (200, ''Ride accepted successfully''))"
  by (simp add: acceptRide_step_def ex_defs store_defs updateStatus_def)

section \<open>Transfers between two wallets (C2)\<close>





lemma save_frame [simp]:
  "rides (save_balance d i b) = rides d" "users (save_balance d i b) = users d"
  "rides (save_push d i t) = rides d" "users (save_push d i t) = users d"
  by (simp_all add: save_balance_def save_push_def)






lemma wallet_ids_save:
  assumes "\<And>w. wallet_userId (f w) = wallet_userId w"
  shows "map wallet_userId (wallets (Wallet_save d i f)) = map wallet_userId (wallets d)"
  by (simp add: Wallet_save_def assms comp_def cong: map_cong)

lemma wallet_ids_saves [simp]:
  "map wallet_userId (wallets (save_balance d i b)) = map wallet_userId (wallets d)"
  "map wallet_userId (wallets (save_push d i t)) = map wallet_userId (wallets d)"
  by (simp_all add: save_balance_def save_push_def wallet_ids_save)




lemmas wallet_ex_defs = db_w_def wallet_alice_def wallet_bob_def dep_alice_def dep_bob_def
  alice_def bob_def carol_def no_fault_def credit_fault_def




section \<open>Gateway confirmations (C4)\<close>

text \<open>
  No stored transaction carries an external reference, so the handler finds no wallet for
  the reference of a confirmation and answers 404 before it touches a document.
\<close>

lemma webhook_finds_nothing:
  "campay_webhook d now ref gs amount = (d, (404, ''Transaction not found''))"
proof -
  have "find (\<lambda>w. \<exists>t \<in> set (transactions w). has_ref ref t) (wallets d) = None"
    by (simp add: find_None_iff has_ref_def metadata_externalReference_def)
  then show ?thesis by (simp add: campay_webhook_def)
qed

lemma deposit_example:
  "deposit_route db_w 7000 alice 300 ''mtn_momo'' ''677000000'' True =
     (db_p, (200, ''Payment initiated successfully. Please complete the payment on your phone.''))"
  by (simp add: deposit_route_def store_defs save_push_def db_w_def db_p_def wallet_alice_def
                wallet_bob_def dep_pending_def pending_txn_def alice_def Let_def)

text \<open>
  C4.  A gateway confirmation, the first for a reference or a repeated one, for a
  transaction that is pending, completed or failed, is a no-op: the handler answers 404
  \<open>Transaction not found\<close> and the store after it is the store before it, so no balance
  has changed and no log entry has been appended; delivering the confirmation again
  changes nothing either.
\<close>

theorem webhook_confirmation_changes_nothing:
  "campay_webhook d now ref gs amount = (d, (404, ''Transaction not found''))
   \<and> map balance (wallets (fst (campay_webhook d now ref gs amount))) = map balance (wallets d)
   \<and> map transactions (wallets (fst (campay_webhook d now ref gs amount)))
       = map transactions (wallets d)
   \<and> fst (campay_webhook (fst (campay_webhook d now ref gs amount)) now' ref gs amount) = d"
  by (simp add: webhook_finds_nothing)

theorem webhook_confirmation_changes_nothing_witness:
  "campay_webhook db_w 6000 ''DEP_100_alice'' ''SUCCESSFUL'' 2000 =
     (db_w, (404, ''Transaction not found''))
   \<and> map_option balance
        (Wallet_findOne (fst (campay_webhook db_w 6000 ''DEP_100_alice'' ''SUCCESSFUL'' 2000)) ''alice'')
       = Some 2000
   \<and> campay_webhook db_p 8000 (externalReference ''DEP'' 7000 ''alice'') ''FAILED'' 300 =
       (db_p, (404, ''Transaction not found''))"
proof -
  have b: "map_option balance (Wallet_findOne db_w ''alice'') = Some 2000"
    by (simp add: store_defs db_w_def wallet_alice_def)
  show ?thesis
    using webhook_confirmation_changes_nothing [of db_w 6000 "''DEP_100_alice''" "''SUCCESSFUL''" 2000]
          webhook_confirmation_changes_nothing
            [of db_p 8000 "externalReference ''DEP'' 7000 ''alice''" "''FAILED''" 300]
          b
    by simp
qed

section \<open>The ledger invariant (C3)\<close>

lemma signed_not_completed [simp]:
  "tx_status t \<noteq> tx_completed \<Longrightarrow> signed_amount is_debit t = 0"
  by (simp add: signed_amount_def is_credit_def is_debit_def)

lemma ledger_append [simp]: "ledger dbt (ts @ [t]) = ledger dbt ts + signed_amount dbt t"
  by (simp add: ledger_def)

lemma ledger_Nil [simp]: "ledger dbt [] = 0"
  by (simp add: ledger_def)

lemma complete_last_snoc [simp]:
  "complete_last now (ts @ [t]) = ts @ [t\<lparr>tx_status := tx_completed, tx_completedAt := Some now\<rparr>]"
  by (simp add: complete_last_def)




lemma store_ok_frame:
  "wallets d' = wallets d \<Longrightarrow> store_ok d' = store_ok d"
  by (simp add: store_ok_def)





















lemma externalReference_example: "externalReference ''DEP'' 7000 ''alice'' = ''DEP_7000_alice''"
  by (simp add: externalReference_def digits.simps)

end
